theory Spec2Isabelle
  imports Complex_Main
begin

section \<open>Numbers and vectors\<close>

text \<open>
  The program is the Angular component \<open>ThreeScene\<close>: a character, a basketball and a
  court, animated by three.js. JavaScript numbers are modelled as real numbers: the
  arithmetic is exact, and NaN and the infinities do not exist. Where three.js stores a
  number in single precision (the two times of a fade), the model keeps the exact
  number, so a comparison that falls exactly on such a time can come out one frame
  apart from the program. A \<open>THREE.Vector3\<close> is a
  triple of reals; the methods of three.js that the program calls on it are written out
  below as three.js defines them.
\<close>

datatype vec3 = Vec3 (vx: real) (vy: real) (vz: real)

definition vadd :: "vec3 \<Rightarrow> vec3 \<Rightarrow> vec3" where
  "vadd a b = Vec3 (vx a + vx b) (vy a + vy b) (vz a + vz b)"

definition vsub :: "vec3 \<Rightarrow> vec3 \<Rightarrow> vec3" where
  "vsub a b = Vec3 (vx a - vx b) (vy a - vy b) (vz a - vz b)"

definition multiplyScalar :: "real \<Rightarrow> vec3 \<Rightarrow> vec3" where
  "multiplyScalar k a = Vec3 (vx a * k) (vy a * k) (vz a * k)"

definition vlength :: "vec3 \<Rightarrow> real" where
  "vlength a = sqrt (vx a * vx a + vy a * vy a + vz a * vz a)"

definition normalizeVec :: "vec3 \<Rightarrow> vec3" where
  \<comment> \<open>\<open>divideScalar(length() || 1)\<close>: the zero vector stays the zero vector.\<close>
  "normalizeVec a = multiplyScalar (1 / (if vlength a = 0 then 1 else vlength a)) a"

definition distanceTo :: "vec3 \<Rightarrow> vec3 \<Rightarrow> real" where
  "distanceTo a b = vlength (vsub a b)"

definition applyAxisAngleY :: "real \<Rightarrow> vec3 \<Rightarrow> vec3" where
  \<comment> \<open>\<open>applyAxisAngle(new Vector3(0, 1, 0), angle)\<close>: the rotation about the Y axis.\<close>
  "applyAxisAngleY angle a =
     Vec3 (vx a * cos angle + vz a * sin angle) (vy a) (vz a * cos angle - vx a * sin angle)"

definition atan2 :: "real \<Rightarrow> real \<Rightarrow> real" where
  \<comment> \<open>\<open>Math.atan2(y, x)\<close>.\<close>
  "atan2 y x =
     (if x > 0 then arctan (y / x)
      else if x < 0 then (if y \<ge> 0 then arctan (y / x) + pi else arctan (y / x) - pi)
      else if y > 0 then pi / 2
      else if y < 0 then - (pi / 2)
      else 0)"

section \<open>Collision boxes\<close>

text \<open>A \<open>THREE.Box3\<close>: the two corners of an axis-aligned box.\<close>

datatype box3 = Box3 (bmin: vec3) (bmax: vec3)

definition expandByScalar :: "real \<Rightarrow> box3 \<Rightarrow> box3" where
  "expandByScalar r b =
     Box3 (Vec3 (vx (bmin b) - r) (vy (bmin b) - r) (vz (bmin b) - r))
          (Vec3 (vx (bmax b) + r) (vy (bmax b) + r) (vz (bmax b) + r))"

definition containsPoint :: "box3 \<Rightarrow> vec3 \<Rightarrow> bool" where
  "containsPoint b p \<longleftrightarrow>
     vx (bmin b) \<le> vx p \<and> vx p \<le> vx (bmax b) \<and>
     vy (bmin b) \<le> vy p \<and> vy p \<le> vy (bmax b) \<and>
     vz (bmin b) \<le> vz p \<and> vz p \<le> vz (bmax b)"

definition isEmpty :: "box3 \<Rightarrow> bool" where
  "isEmpty b \<longleftrightarrow>
     vx (bmax b) < vx (bmin b) \<or> vy (bmax b) < vy (bmin b) \<or> vz (bmax b) < vz (bmin b)"

definition getCenter :: "box3 \<Rightarrow> vec3" where
  "getCenter b =
     (if isEmpty b then Vec3 0 0 0 else multiplyScalar 0.5 (vadd (bmin b) (bmax b)))"

text \<open>
  The six values that \<open>hitFace\<close> ends with; its initial value \<open>'unknown'\<close> is overwritten
  on every path.
\<close>

datatype face = Top | Bottom | Left | Right | Front | Back

definition basketballRadius :: real where
  "basketballRadius = 0.12"

definition characterRadius :: real where
  "characterRadius = 0.2"

text \<open>
  The test both collision loops make on a box: the centre of the sphere lies in the box
  grown by the radius, and not in the box itself.
\<close>

definition surfaceHit :: "real \<Rightarrow> box3 \<Rightarrow> vec3 \<Rightarrow> bool" where
  "surfaceHit r b c \<longleftrightarrow> containsPoint (expandByScalar r b) c \<and> \<not> containsPoint b c"

text \<open>The classification of the face, lines 417 to 455 of the component.\<close>

definition hitFaceOf :: "real \<Rightarrow> box3 \<Rightarrow> vec3 \<Rightarrow> face" where
  "hitFaceOf r collisionBox ballCenter =
     (let expandedBox = expandByScalar r collisionBox;
          penetrationX = min (vx ballCenter - vx (bmin expandedBox))
                             (vx (bmax expandedBox) - vx ballCenter);
          penetrationY = min (vy ballCenter - vy (bmin expandedBox))
                             (vy (bmax expandedBox) - vy ballCenter);
          penetrationZ = min (vz ballCenter - vz (bmin expandedBox))
                             (vz (bmax expandedBox) - vz ballCenter)
      in if penetrationX \<le> penetrationY \<and> penetrationX \<le> penetrationZ then
           (if vx ballCenter < vx (getCenter collisionBox) then Left else Right)
         else if penetrationY \<le> penetrationZ then
           (if vy ballCenter < vy (getCenter collisionBox) then Bottom else Top)
         else
           (if vz ballCenter < vz (getCenter collisionBox) then Back else Front))"

text \<open>
  \<open>collisionObjectNames[i]\<close>: reading past the end of a JavaScript array gives
  \<open>undefined\<close>, which is no name.
\<close>

definition nameAt :: "string list \<Rightarrow> nat \<Rightarrow> string option" where
  "nameAt names i = (if i < length names then Some (names ! i) else None)"

definition restrictedSkip :: "string list \<Rightarrow> nat \<Rightarrow> face \<Rightarrow> bool" where
  \<comment> \<open>The \<open>continue\<close> of lines 457 to 463.\<close>
  "restrictedSkip names i hitFace \<longleftrightarrow>
     nameAt names i = Some ''Object_28'' \<and> hitFace \<noteq> Front \<and> hitFace \<noteq> Back"

text \<open>
  The loop of \<open>checkBasketballCollision\<close> from index \<open>i\<close> on, over the boxes that are
  left. \<open>None\<close> is \<open>{ hasCollision: false }\<close> and \<open>Some f\<close> is
  \<open>{ hasCollision: true, hitFace: f }\<close>.
\<close>

fun scanBoxes :: "nat \<Rightarrow> box3 list \<Rightarrow> string list \<Rightarrow> vec3 \<Rightarrow> face option" where
  "scanBoxes i [] names ballCenter = None"
| "scanBoxes i (collisionBox # rest) names ballCenter =
     (if surfaceHit basketballRadius collisionBox ballCenter then
        (let hitFace = hitFaceOf basketballRadius collisionBox ballCenter
         in if restrictedSkip names i hitFace
            then scanBoxes (Suc i) rest names ballCenter
            else Some hitFace)
      else scanBoxes (Suc i) rest names ballCenter)"

definition checkBasketballCollision :: "box3 list \<Rightarrow> string list \<Rightarrow> vec3 \<Rightarrow> face option" where
  "checkBasketballCollision collisionBoxes collisionObjectNames newPosition =
     scanBoxes 0 collisionBoxes collisionObjectNames newPosition"

text \<open>
  \<open>checkCollision\<close>, the query of the character: a sphere of radius 0.2 whose centre is
  the new position raised by 0.5.
\<close>

fun checkCollisionLoop :: "box3 list \<Rightarrow> vec3 \<Rightarrow> bool" where
  "checkCollisionLoop [] characterCenter = False"
| "checkCollisionLoop (collisionBox # rest) characterCenter =
     (if surfaceHit characterRadius collisionBox characterCenter then True
      else checkCollisionLoop rest characterCenter)"

definition checkCollision :: "box3 list \<Rightarrow> vec3 \<Rightarrow> bool" where
  "checkCollision collisionBoxes newPosition =
     checkCollisionLoop collisionBoxes
       (Vec3 (vx newPosition) (vy newPosition + 0.5) (vz newPosition))"

section \<open>The face classification as the specification words it\<close>






section \<open>The animation objects of three.js\<close>

text \<open>
  The seven values of \<open>animationStates\<close>, which are also the keys of \<open>actions\<close>:
  \<open>'idle'\<close>, \<open>'wlking'\<close>, \<open>'walkingbackward'\<close>, \<open>'running'\<close>, \<open>'holdingball'\<close>,
  \<open>'standingtocrouched'\<close> and \<open>'throwball'\<close>.
\<close>

datatype anim = Idle | Forward | Backward | Running | HoldingBall | StandingToCrouched | ThrowBall

text \<open>
  A \<open>THREE.AnimationAction\<close>, with the fields that the program and the mixer's update
  read. \<open>loopOnce\<close> stands for \<open>setLoop(THREE.LoopOnce, 1)\<close> together with
  \<open>clampWhenFinished = true\<close>, which the loader sets on the same two actions; the other
  actions repeat forever. \<open>fading\<close> is the weight interpolant that \<open>fadeIn\<close> and \<open>fadeOut\<close>
  schedule, kept as its direction and the mixer time at which it ends. The time scale
  is 1 and no start time is scheduled, as the program never sets them.
\<close>

datatype fade = NoFade | FadeIn real | FadeOut real

record action =
  clipDuration :: real
  loopOnce :: bool
  time :: real
  paused :: bool
  enabled :: bool
  fading :: fade

definition clipAction :: "real \<Rightarrow> action" where
  "clipAction duration =
     \<lparr>clipDuration = duration, loopOnce = False, time = 0, paused = False, enabled = True,
      fading = NoFade\<rparr>"

text \<open>
  The two methods that the program registers on the mixer for the \<open>'finished'\<close> event. A
  listener is a function object: \<open>this.onCrouchFinished.bind(this)\<close> allocates a new one
  at every evaluation, so a listener carries the number of the allocation that made it,
  and two listeners are the same object only when the numbers agree.
\<close>

datatype handler = OnCrouchFinished | OnThrowFinished

type_synonym listener = "nat \<times> handler"

text \<open>The banner lines that the program writes to the console at a pickup and a throw.\<close>

datatype logmsg =
    PickingUpBall | StartingThrowAnimation | BallPickupCompleted | ThrowAnimationFinished
  | ReleasingBall | BasketballThrown

section \<open>The state of the component\<close>

text \<open>
  A \<open>THREE.Group\<close> (the avatar, the basketball), with the fields the simulation reads
  and writes.
\<close>

record group =
  position :: vec3
  rotationY :: real
  visible :: bool

text \<open>
  The fields of \<open>ThreeScene\<close> that the simulation reads or writes. \<open>avatar\<close> and
  \<open>basketball\<close> are \<open>None\<close> until their model has loaded. The mixer is created together
  with the avatar: \<open>mixerLoaded\<close> tells whether it exists, \<open>mixerTime\<close> is its \<open>time\<close>,
  \<open>mixerActions\<close> its active actions in the order of their activation, \<open>listeners\<close> its
  listener array for \<open>'finished'\<close>. \<open>currentAction\<close> refers to an action by its key.
  \<open>bindCount\<close> counts the function objects that \<open>bind\<close> has allocated. \<open>isMouseDown\<close>,
  \<open>lastMouseX\<close> and \<open>lastMouseY\<close> are the state of the mouse listeners that turn the
  camera. The scene graph, the renderer and the camera object are not part of the
  model: no code of the simulation reads them back.
\<close>

record sim =
  avatar :: "group option"
  mixerLoaded :: bool
  mixerTime :: real
  mixerActions :: "anim list"
  listeners :: "listener list"
  bindCount :: nat
  actions :: "anim \<Rightarrow> action option"
  currentAction :: "anim option"
  keys :: "string \<Rightarrow> bool"
  currentState :: anim
  hasBall :: bool
  isCrouched :: bool
  isTransitioning :: bool
  isThrowingBall :: bool
  ballWasThrown :: bool
  basketball :: "group option"
  basketballVelocity :: vec3
  collisionBoxes :: "box3 list"
  collisionObjectNames :: "string list"
  cameraDistance :: real
  cameraHeight :: real
  cameraAngle :: real
  cameraVerticalAngle :: real
  isMouseDown :: bool
  lastMouseX :: real
  lastMouseY :: real
  console :: "logmsg list"

definition moveSpeed :: real where "moveSpeed = 2"
definition sprintSpeed :: real where "sprintSpeed = 4"
definition gravity :: real where "gravity = - 9.81"
definition bounceReduction :: real where "bounceReduction = 0.7"
definition groundY :: real where "groundY = - 1.5"
definition pickupDistance :: real where "pickupDistance = 1.5"

definition initial :: sim where
  "initial =
     \<lparr>avatar = None, mixerLoaded = False, mixerTime = 0, mixerActions = [], listeners = [],
      bindCount = 0, actions = (\<lambda>k. None), currentAction = None, keys = (\<lambda>k. False),
      currentState = Idle, hasBall = False, isCrouched = False, isTransitioning = False,
      isThrowingBall = False, ballWasThrown = False, basketball = None,
      basketballVelocity = Vec3 0 0 0, collisionBoxes = [], collisionObjectNames = [],
      cameraDistance = 4, cameraHeight = 1.8, cameraAngle = 0, cameraVerticalAngle = 0,
      isMouseDown = False, lastMouseX = 0, lastMouseY = 0, console = []\<rparr>"

definition consoleLog :: "logmsg \<Rightarrow> sim \<Rightarrow> sim" where
  "consoleLog m s = s\<lparr>console := console s @ [m]\<rparr>"

subsection \<open>Methods of the action and of the event dispatcher\<close>

definition updateAction :: "anim \<Rightarrow> (action \<Rightarrow> action) \<Rightarrow> sim \<Rightarrow> sim" where
  \<comment> \<open>A write to the fields of the action object stored under a key.\<close>
  "updateAction k f s = s\<lparr>actions := (actions s)(k := map_option f (actions s k))\<rparr>"

definition fadeOut :: "anim \<Rightarrow> real \<Rightarrow> sim \<Rightarrow> sim" where
  "fadeOut k duration s = updateAction k (\<lambda>a. a\<lparr>fading := FadeOut (mixerTime s + duration)\<rparr>) s"

definition fadeIn :: "anim \<Rightarrow> real \<Rightarrow> sim \<Rightarrow> sim" where
  "fadeIn k duration s = updateAction k (\<lambda>a. a\<lparr>fading := FadeIn (mixerTime s + duration)\<rparr>) s"

definition reset :: "anim \<Rightarrow> sim \<Rightarrow> sim" where
  "reset k s =
     updateAction k (\<lambda>a. a\<lparr>paused := False, enabled := True, time := 0, fading := NoFade\<rparr>) s"

definition play :: "anim \<Rightarrow> sim \<Rightarrow> sim" where
  \<comment> \<open>Activates the action in the mixer unless it is active already.\<close>
  "play k s = (if k \<in> set (mixerActions s) then s else s\<lparr>mixerActions := mixerActions s @ [k]\<rparr>)"

definition bind :: "handler \<Rightarrow> sim \<Rightarrow> listener \<times> sim" where
  "bind h s = ((bindCount s, h), s\<lparr>bindCount := Suc (bindCount s)\<rparr>)"

definition addEventListener :: "listener \<Rightarrow> sim \<Rightarrow> sim" where
  \<comment> \<open>\<open>EventDispatcher.addEventListener\<close>: pushes the listener unless the array holds it.\<close>
  "addEventListener l s = (if l \<in> set (listeners s) then s else s\<lparr>listeners := listeners s @ [l]\<rparr>)"

definition removeEventListener :: "listener \<Rightarrow> sim \<Rightarrow> sim" where
  \<comment> \<open>\<open>EventDispatcher.removeEventListener\<close>: splices the listener out where \<open>indexOf\<close> finds it.\<close>
  "removeEventListener l s = s\<lparr>listeners := remove1 l (listeners s)\<rparr>"

subsection \<open>playAnimation\<close>

definition playAnimation :: "anim \<Rightarrow> sim \<Rightarrow> sim" where
  "playAnimation state s =
     (case actions s state of
        None \<Rightarrow> s
      | Some _ \<Rightarrow>
          (let s1 = (case currentAction s of
                       Some c \<Rightarrow> if c \<noteq> state then fadeOut c 0.3 s else s
                     | None \<Rightarrow> s);
               s2 = s1\<lparr>currentAction := Some state\<rparr>;
               s3 = play state (fadeIn state 0.3 (reset state s2))
           in if state = StandingToCrouched then
                (let s4 = s3\<lparr>isTransitioning := True\<rparr>;
                     (l, s5) = bind OnCrouchFinished s4
                 in addEventListener l s5)
              else if state = ThrowBall then
                (let s4 = s3\<lparr>isTransitioning := True, isThrowingBall := True\<rparr>;
                     (l, s5) = bind OnThrowFinished s4
                 in addEventListener l s5)
              else s3))"

subsection \<open>The ball in the hand and the throw\<close>

definition throwBasketball :: "sim \<Rightarrow> sim" where
  "throwBasketball s =
     (case (basketball s, avatar s) of
        (Some ball, Some av) \<Rightarrow>
          (let throwDirection = Vec3 (sin (rotationY av)) 0 (cos (rotationY av));
               throwForce = 8;
               v = multiplyScalar throwForce throwDirection
           in consoleLog BasketballThrown
                (s\<lparr>basketball := Some (ball\<lparr>visible := True\<rparr>),
                   basketballVelocity := Vec3 (vx v) 6 (vz v),
                   ballWasThrown := True\<rparr>))
      | _ \<Rightarrow> s)"

definition currentActionObject :: "sim \<Rightarrow> action option" where
  "currentActionObject s = (case currentAction s of None \<Rightarrow> None | Some k \<Rightarrow> actions s k)"

definition animationProgress :: "action \<Rightarrow> real" where
  \<comment> \<open>\<open>Math.min(animationTime / animationDuration, 1)\<close>. A clip of duration 0 makes the
      quotient Infinity or NaN; the comparisons that follow then all fail, as they do
      for the value 1.\<close>
  "animationProgress a = (if clipDuration a = 0 then 1 else min (time a / clipDuration a) 1)"

definition setBallInHand :: "vec3 \<Rightarrow> sim \<Rightarrow> sim" where
  \<comment> \<open>Lines 710 to 715: rotate the offset by the yaw of the avatar and add it to the
      position of the avatar.\<close>
  "setBallInHand handOffset s =
     (case (basketball s, avatar s) of
        (Some ball, Some av) \<Rightarrow>
          s\<lparr>basketball :=
              Some (ball\<lparr>position := vadd (position av) (applyAxisAngleY (rotationY av) handOffset)\<rparr>)\<rparr>
      | _ \<Rightarrow> s)"

definition updateBasketballInHand :: "sim \<Rightarrow> sim" where
  "updateBasketballInHand s =
     (if basketball s = None \<or> avatar s = None \<or> \<not> hasBall s then s
      else if ballWasThrown s then s\<lparr>hasBall := False\<rparr>
      else if \<not> isThrowingBall s \<and> vlength (basketballVelocity s) > 0.1 then s
      else
        (case (if isThrowingBall s then currentActionObject s else None) of
           None \<Rightarrow> setBallInHand (Vec3 0 1 0.4) s
         | Some a \<Rightarrow>
             (let progress = animationProgress a
              in if progress \<le> 0.3 then
                   (let downProgress = progress / 0.3;
                        downCurve = sin (downProgress * pi * 0.5)
                    in setBallInHand (Vec3 0 (1 - downCurve * 0.2) (0.4 - downCurve * 0.1)) s)
                 else if progress \<le> 0.55 then
                   (let upProgress = (progress - 0.3) / 0.25;
                        upCurve = upProgress powr 0.3
                    in setBallInHand
                         (Vec3 0 (1 + (- 0.2 + upCurve * 0.9)) (0.4 + (- 0.1 + upCurve * 0.15))) s)
                 else if progress \<le> 0.6 then
                   (let throwProgress = (progress - 0.55) / 0.25
                    in setBallInHand (Vec3 0 (1 + 0.7) (0.4 + (0.05 - throwProgress * 0.3))) s)
                 else
                   (if hasBall s
                    then throwBasketball (consoleLog ReleasingBall (s\<lparr>hasBall := False\<rparr>))
                    else s))))"

definition attachBasketballToHand :: "sim \<Rightarrow> sim" where
  "attachBasketballToHand s =
     (case (basketball s, avatar s) of
        (Some ball, Some av) \<Rightarrow> updateBasketballInHand (s\<lparr>basketball := Some (ball\<lparr>visible := True\<rparr>)\<rparr>)
      | _ \<Rightarrow> s)"

subsection \<open>The completion callbacks\<close>

definition onCrouchFinished :: "sim \<Rightarrow> sim" where
  "onCrouchFinished s =
     (let (l, s1) = bind OnCrouchFinished s;
          s2 = removeEventListener l s1;
          s3 = s2\<lparr>isCrouched := True, hasBall := True, isTransitioning := False,
                  ballWasThrown := False\<rparr>;
          s4 = attachBasketballToHand s3;
          s5 = playAnimation HoldingBall s4;
          s6 = s5\<lparr>currentState := HoldingBall\<rparr>
      in consoleLog BallPickupCompleted s6)"

text \<open>
  \<open>onThrowFinished\<close> also prints \<open>this.basketball.position\<close> (line 521), which is a
  \<open>TypeError\<close> when the ball has not loaded. The model has no such failure: the
  callback is registered by a throw, a throw needs \<open>hasBall\<close>, and \<open>hasBall\<close> is set
  only after a pickup, which \<open>canPickupBall\<close> allows only with the ball loaded.
\<close>

definition onThrowFinished :: "sim \<Rightarrow> sim" where
  "onThrowFinished s =
     (let (l, s1) = bind OnThrowFinished s;
          s2 = removeEventListener l s1;
          s3 = s2\<lparr>isCrouched := False, isTransitioning := False, isThrowingBall := False,
                  hasBall := False\<rparr>;
          s4 = consoleLog ThrowAnimationFinished s3;
          s5 = playAnimation Idle s4
      in s5\<lparr>currentState := Idle\<rparr>)"

definition callListener :: "listener \<Rightarrow> sim \<Rightarrow> sim" where
  "callListener l s = (case snd l of OnCrouchFinished \<Rightarrow> onCrouchFinished s
                                   | OnThrowFinished \<Rightarrow> onThrowFinished s)"

definition dispatchFinished :: "sim \<Rightarrow> sim" where
  \<comment> \<open>\<open>EventDispatcher.dispatchEvent\<close>: calls, in order, a copy of the listener array taken
      before the first call.\<close>
  "dispatchFinished s = foldl (\<lambda>s' l. callListener l s') s (listeners s)"

subsection \<open>The update of the mixer\<close>

text \<open>
  \<open>AnimationAction._updateTime\<close> with the time step \<open>deltaTime\<close>: nothing happens for a
  step of 0; an action that plays once stops at the end of its clip (or at 0), is
  paused, and the mixer dispatches \<open>'finished'\<close>; a repeating action wraps around. The
  \<open>'loop'\<close> event of a wrap has no listener in this program.
\<close>

definition updateTime :: "anim \<Rightarrow> real \<Rightarrow> sim \<Rightarrow> sim" where
  "updateTime k deltaTime s =
     (case actions s k of
        None \<Rightarrow> s
      | Some a \<Rightarrow>
          if deltaTime = 0 then s
          else
            (let t = time a + deltaTime; duration = clipDuration a
             in if loopOnce a then
                  (if t \<ge> duration then
                     dispatchFinished (updateAction k (\<lambda>a. a\<lparr>paused := True, time := duration\<rparr>) s)
                   else if t < 0 then
                     dispatchFinished (updateAction k (\<lambda>a. a\<lparr>paused := True, time := 0\<rparr>) s)
                   else updateAction k (\<lambda>a. a\<lparr>time := t\<rparr>) s)
                else
                  (if t \<ge> duration \<or> t < 0 then
                     updateAction k (\<lambda>a. a\<lparr>time := t - duration * of_int \<lfloor>t / duration\<rfloor>\<rparr>) s
                   else updateAction k (\<lambda>a. a\<lparr>time := t\<rparr>) s)))"

definition updateWeight :: "anim \<Rightarrow> sim \<Rightarrow> sim" where
  \<comment> \<open>\<open>AnimationAction._updateWeight\<close>: a fade that has ended is dropped, and an action
      that has faded out is disabled.\<close>
  "updateWeight k s =
     (case actions s k of
        None \<Rightarrow> s
      | Some a \<Rightarrow>
          if \<not> enabled a then s
          else (case fading a of
                  NoFade \<Rightarrow> s
                | FadeIn e \<Rightarrow>
                    if mixerTime s > e then updateAction k (\<lambda>a. a\<lparr>fading := NoFade\<rparr>) s else s
                | FadeOut e \<Rightarrow>
                    if mixerTime s > e
                    then updateAction k (\<lambda>a. a\<lparr>fading := NoFade, enabled := False\<rparr>) s
                    else s))"

definition actionUpdate :: "real \<Rightarrow> anim \<Rightarrow> sim \<Rightarrow> sim" where
  \<comment> \<open>\<open>AnimationAction._update\<close>: a disabled action does not move, a paused one moves by 0.\<close>
  "actionUpdate deltaTime k s =
     (case actions s k of
        None \<Rightarrow> s
      | Some a \<Rightarrow>
          if \<not> enabled a then s
          else updateWeight k (updateTime k (if paused a then 0 else deltaTime) s))"

definition mixerUpdate :: "real \<Rightarrow> sim \<Rightarrow> sim" where
  \<comment> \<open>\<open>AnimationMixer.update\<close>: advances the mixer time, then updates the actions that
      were active when the call began, in the order of their activation.\<close>
  "mixerUpdate deltaTime s =
     (let s1 = s\<lparr>mixerTime := mixerTime s + deltaTime\<rparr>
      in foldl (\<lambda>s' k. actionUpdate deltaTime k s') s1 (mixerActions s1))"

section \<open>The physics of the basketball\<close>

definition resetBasketball :: "sim \<Rightarrow> sim" where
  \<comment> \<open>The body of both safety checks, lines 540 to 544 and 552 to 556.\<close>
  "resetBasketball s =
     (case basketball s of
        None \<Rightarrow> s
      | Some ball \<Rightarrow>
          s\<lparr>basketball := Some (ball\<lparr>position := Vec3 3 (- 1.2) 0\<rparr>),
            basketballVelocity := Vec3 0 0 0,
            hasBall := False, isThrowingBall := False, ballWasThrown := False\<rparr>)"

definition applyGravity :: "real \<Rightarrow> sim \<Rightarrow> sim" where
  "applyGravity delta s =
     (let v = basketballVelocity s
      in s\<lparr>basketballVelocity := Vec3 (vx v) (vy v + gravity * delta) (vz v)\<rparr>)"

definition candidatePosition :: "real \<Rightarrow> sim \<Rightarrow> group \<Rightarrow> vec3" where
  \<comment> \<open>\<open>newPosition\<close>, lines 569 to 575.\<close>
  "candidatePosition delta s ball =
     (let v = basketballVelocity s
      in vadd (position ball) (Vec3 (vx v * delta) (vy v * delta) (vz v * delta)))"

definition bounce :: "face \<Rightarrow> vec3 \<Rightarrow> vec3" where
  \<comment> \<open>Lines 586 to 606, with \<open>bounceStrength = 0.8\<close>.\<close>
  "bounce hitFace v =
     (let bounceStrength = 0.8
      in case hitFace of
           Top \<Rightarrow> Vec3 (vx v) (- \<bar>vy v\<bar> * bounceStrength) (vz v)
         | Bottom \<Rightarrow> Vec3 (vx v) (\<bar>vy v\<bar> * bounceStrength) (vz v)
         | Left \<Rightarrow> Vec3 (\<bar>vx v\<bar> * bounceStrength) (vy v) (vz v)
         | Right \<Rightarrow> Vec3 (- \<bar>vx v\<bar> * bounceStrength) (vy v) (vz v)
         | Front \<Rightarrow> Vec3 (vx v) (vy v) (- \<bar>vz v\<bar> * bounceStrength)
         | Back \<Rightarrow> Vec3 (vx v) (vy v) (\<bar>vz v\<bar> * bounceStrength))"

definition courtCollision :: "real \<Rightarrow> sim \<Rightarrow> sim" where
  \<comment> \<open>Lines 568 to 615: the candidate position, the query, and the response to it.\<close>
  "courtCollision delta s =
     (case basketball s of
        None \<Rightarrow> s
      | Some ball \<Rightarrow>
          (let newPosition = candidatePosition delta s ball
           in case checkBasketballCollision (collisionBoxes s) (collisionObjectNames s) newPosition of
                Some hitFace \<Rightarrow>
                  s\<lparr>basketballVelocity := multiplyScalar 0.9 (bounce hitFace (basketballVelocity s))\<rparr>
              | None \<Rightarrow> s\<lparr>basketball := Some (ball\<lparr>position := newPosition\<rparr>)\<rparr>))"

definition groundCollision :: "sim \<Rightarrow> sim" where
  \<comment> \<open>Lines 617 to 631.\<close>
  "groundCollision s =
     (case basketball s of
        None \<Rightarrow> s
      | Some ball \<Rightarrow>
          if vy (position ball) \<le> groundY + basketballRadius then
            (let p = position ball; v = basketballVelocity s;
                 y = (if \<bar>vy v\<bar> > 0.1 then - vy v * bounceReduction else 0)
             in s\<lparr>basketball := Some (ball\<lparr>position := Vec3 (vx p) (groundY + basketballRadius) (vz p)\<rparr>),
                  basketballVelocity := Vec3 (vx v * 0.8) y (vz v * 0.8)\<rparr>)
          else s)"

definition updateBasketballPhysics :: "real \<Rightarrow> sim \<Rightarrow> sim" where
  "updateBasketballPhysics delta s =
     (case basketball s of
        None \<Rightarrow> s
      | Some ball \<Rightarrow>
          if hasBall s then updateBasketballInHand s
          else if vy (position ball) < - 10 then resetBasketball s
          else if vlength (position ball) > 50 then resetBasketball s
          else groundCollision (courtCollision delta (applyGravity delta s)))"

definition canPickupBall :: "sim \<Rightarrow> bool" where
  "canPickupBall s =
     (case (basketball s, avatar s) of
        (Some ball, Some av) \<Rightarrow>
          \<not> hasBall s \<and> distanceTo (position av) (position ball) \<le> pickupDistance
      | _ \<Rightarrow> False)"

section \<open>The movement of the character\<close>

definition updateCameraPosition :: "sim \<Rightarrow> sim" where
  \<comment> \<open>The arrow keys change the height and the angle of the camera; the placement of
      the camera object that follows is rendering.\<close>
  "updateCameraPosition s =
     (if avatar s = None then s
      else
        (let s1 = (if keys s ''arrowup'' then s\<lparr>cameraHeight := cameraHeight s + 0.02\<rparr> else s);
             s2 = (if keys s1 ''arrowdown'' then s1\<lparr>cameraHeight := cameraHeight s1 - 0.02\<rparr> else s1);
             s3 = (if keys s2 ''arrowleft'' then s2\<lparr>cameraAngle := cameraAngle s2 + 0.02\<rparr> else s2)
         in if keys s3 ''arrowright'' then s3\<lparr>cameraAngle := cameraAngle s3 - 0.02\<rparr> else s3))"

definition cameraForward :: "sim \<Rightarrow> vec3" where
  "cameraForward s = Vec3 (- sin (cameraAngle s)) 0 (- cos (cameraAngle s))"

definition cameraRight :: "sim \<Rightarrow> vec3" where
  "cameraRight s = Vec3 (cos (cameraAngle s)) 0 (- sin (cameraAngle s))"

definition moveDirOf :: "sim \<Rightarrow> vec3" where
  \<comment> \<open>\<open>moveDir\<close> after the four key tests of lines 797 to 834.\<close>
  "moveDirOf s =
     (let m0 = Vec3 0 0 0;
          m1 = (if keys s ''z'' then vadd m0 (cameraForward s) else m0);
          m2 = (if keys s ''s'' then vsub m1 (cameraForward s) else m1);
          m3 = (if keys s ''q'' then vsub m2 (cameraRight s) else m2)
      in if keys s ''d'' then vadd m3 (cameraRight s) else m3)"

definition currentSpeedOf :: "sim \<Rightarrow> real" where
  "currentSpeedOf s = (if keys s ''shift'' then sprintSpeed else moveSpeed)"

definition newStateOf :: "sim \<Rightarrow> anim" where
  \<comment> \<open>\<open>newState\<close> after the four key tests of lines 797 to 834.\<close>
  "newStateOf s =
     (let isSprinting = keys s ''shift'';
          n0 = (if hasBall s then HoldingBall else Idle);
          n1 = (if keys s ''z''
                then (if hasBall s then HoldingBall else if isSprinting then Running else Forward)
                else n0);
          n2 = (if keys s ''s''
                then (if hasBall s then HoldingBall else Backward)
                else n1);
          n3 = (if keys s ''q''
                then (if hasBall s then HoldingBall else if isSprinting then Running else Forward)
                else n2)
      in if keys s ''d''
         then (if hasBall s then HoldingBall else if isSprinting then Running else Forward)
         else n3)"

definition handleMovement :: "real \<Rightarrow> sim \<Rightarrow> sim" where
  "handleMovement delta s =
     (case avatar s of
        None \<Rightarrow> s
      | Some av \<Rightarrow>
          if isTransitioning s then s
          else
            (let moveDir = moveDirOf s; newState = newStateOf s; currentSpeed = currentSpeedOf s;
                 s1 =
                   (if vlength moveDir > 0 then
                      (let moveDir = normalizeVec moveDir;
                           movement = multiplyScalar (currentSpeed * delta) moveDir;
                           newPosition = vadd (position av) movement;
                           angle = atan2 (vx moveDir) (vz moveDir);
                           av1 = (if \<not> checkCollision (collisionBoxes s) newPosition
                                  then av\<lparr>position := newPosition, rotationY := angle\<rparr>
                                  else av\<lparr>rotationY := angle\<rparr>);
                           sa = s\<lparr>avatar := Some av1\<rparr>
                       in if newState \<noteq> currentState sa
                          then (playAnimation newState sa)\<lparr>currentState := newState\<rparr>
                          else sa)
                    else
                      (let idleState = (if hasBall s then HoldingBall else Idle)
                       in if currentState s \<noteq> idleState
                          then (playAnimation idleState s)\<lparr>currentState := idleState\<rparr>
                          else s))
             in updateCameraPosition s1))"

section \<open>Events\<close>

definition onKeyDown :: "string \<Rightarrow> sim \<Rightarrow> sim" where
  \<comment> \<open>The argument is \<open>event.key.toLowerCase()\<close>.\<close>
  "onKeyDown key s0 =
     (let s = s0\<lparr>keys := (keys s0)(key := True)\<rparr>
      in if key = ''e'' \<and> \<not> hasBall s \<and> \<not> isTransitioning s \<and> canPickupBall s then
           (let s1 = consoleLog PickingUpBall s;
                s2 = s1\<lparr>basketballVelocity := Vec3 0 0 0\<rparr>;
                s3 = playAnimation StandingToCrouched s2
            in s3\<lparr>currentState := StandingToCrouched\<rparr>)
         else if key = ''r'' \<and> hasBall s \<and> \<not> isTransitioning s then
           (let s1 = consoleLog StartingThrowAnimation s;
                s2 = playAnimation ThrowBall s1
            in s2\<lparr>currentState := ThrowBall\<rparr>)
         else s)"

definition onKeyUp :: "string \<Rightarrow> sim \<Rightarrow> sim" where
  "onKeyUp key s = s\<lparr>keys := (keys s)(key := False)\<rparr>"

text \<open>
  The mouse listeners of \<open>initThreeJS\<close>: a drag turns the camera, the wheel changes
  its distance. The arguments are \<open>event.clientX\<close> and \<open>event.clientY\<close>, and
  \<open>event.deltaY\<close> for the wheel.
\<close>

definition onMouseDown :: "real \<Rightarrow> real \<Rightarrow> sim \<Rightarrow> sim" where
  "onMouseDown clientX clientY s =
     s\<lparr>isMouseDown := True, lastMouseX := clientX, lastMouseY := clientY\<rparr>"

definition onMouseUp :: "sim \<Rightarrow> sim" where
  "onMouseUp s = s\<lparr>isMouseDown := False\<rparr>"

definition onMouseMove :: "real \<Rightarrow> real \<Rightarrow> sim \<Rightarrow> sim" where
  "onMouseMove clientX clientY s =
     (if isMouseDown s then
        (let deltaX = clientX - lastMouseX s;
             deltaY = clientY - lastMouseY s;
             angle = cameraAngle s - deltaX * 0.01;
             vertical = cameraVerticalAngle s + deltaY * 0.01
         in s\<lparr>cameraAngle := angle,
              cameraVerticalAngle := max (- pi / 3) (min (pi / 3) vertical),
              lastMouseX := clientX, lastMouseY := clientY\<rparr>)
      else s)"

definition onWheel :: "real \<Rightarrow> sim \<Rightarrow> sim" where
  "onWheel deltaY s =
     s\<lparr>cameraDistance := max 1 (min 10 (cameraDistance s + deltaY * 0.01))\<rparr>"

definition animate :: "real \<Rightarrow> sim \<Rightarrow> sim" where
  \<comment> \<open>One frame; \<open>delta\<close> is \<open>this.clock.getDelta()\<close>.\<close>
  "animate delta s =
     (let s1 = (if mixerLoaded s then mixerUpdate delta s else s);
          s2 = handleMovement delta s1;
          s3 = updateBasketballPhysics delta s2
      in updateCameraPosition s3)"

text \<open>
  The callback of \<open>loadGLBModel\<close>. Its argument lists, for the clips of the model whose
  lower-cased name contains one of the seven keys, the key and the duration of the
  clip, in the order of \<open>gltf.animations\<close>; a later clip replaces an earlier one under
  the same key. Every entry makes an action of its own: a clip whose name contains two
  of the keys, for which the program stores one and the same action under both, is
  outside the model.
\<close>

definition registerClip :: "anim \<times> real \<Rightarrow> sim \<Rightarrow> sim" where
  "registerClip c s =
     (let (k, duration) = c;
          a = clipAction duration;
          a1 = (if k = StandingToCrouched \<or> k = ThrowBall then a\<lparr>loopOnce := True\<rparr> else a)
      in s\<lparr>actions := (actions s)(k := Some a1)\<rparr>)"

definition avatarLoaded :: "(anim \<times> real) list \<Rightarrow> sim \<Rightarrow> sim" where
  "avatarLoaded clips s =
     (let s1 = s\<lparr>avatar := Some \<lparr>position = Vec3 0 (- 1.5) 0, rotationY = 0, visible = True\<rparr>,
                 mixerLoaded := True, mixerTime := 0, mixerActions := [], listeners := []\<rparr>;
          s2 = foldl (\<lambda>s' c. registerClip c s') s1 clips
      in if clips \<noteq> [] then playAnimation Idle s2 else s2)"

definition basketballLoaded :: "sim \<Rightarrow> sim" where
  "basketballLoaded s =
     s\<lparr>basketball := Some \<lparr>position = Vec3 3 (- 1.2) 0, rotationY = 0, visible = True\<rparr>\<rparr>"

text \<open>
  \<open>createCourtCollisions\<close>, run by the callback of \<open>loadBasketballCourt\<close>. A child of the
  court is given by its name, whether it is a mesh, and the box that \<open>setFromObject\<close>
  computes for it.
\<close>

definition courtWorldBox :: "box3 \<Rightarrow> box3" where
  "courtWorldBox localBox =
     (let scaledMin = Vec3 (vx (bmin localBox) * 4 + 0) (vy (bmin localBox) * 3 + (- 2.1))
                           (vz (bmin localBox) * 3 + 0);
          scaledMax = Vec3 (vx (bmax localBox) * 4 + 0) (vy (bmax localBox) * 3 + (- 2.1))
                           (vz (bmax localBox) * 3 + 0);
          heightIncrease = 2.0
      in Box3 scaledMin (Vec3 (vx scaledMax) (vy scaledMax + heightIncrease) (vz scaledMax)))"

definition addCourtChild :: "string \<times> bool \<times> box3 \<Rightarrow> sim \<Rightarrow> sim" where
  "addCourtChild child s =
     (let (name, isMesh, localBox) = child
      in if name = ''Object_7'' \<and> isMesh
         then s\<lparr>collisionBoxes := collisionBoxes s @ [courtWorldBox localBox],
                collisionObjectNames := collisionObjectNames s @ [name]\<rparr>
         else s)"

definition createCourtCollisions :: "(string \<times> bool \<times> box3) list \<Rightarrow> sim \<Rightarrow> sim" where
  "createCourtCollisions children s =
     foldl (\<lambda>s' child. addCourtChild child s') (s\<lparr>collisionBoxes := []\<rparr>) children"

datatype event =
    AvatarLoaded "(anim \<times> real) list"
  | BasketballLoaded
  | CourtLoaded "(string \<times> bool \<times> box3) list"
  | KeyDown string
  | KeyUp string
  | MouseDown real real
  | MouseUp
  | MouseMove real real
  | Wheel real
  | Frame real

fun step :: "event \<Rightarrow> sim \<Rightarrow> sim" where
  "step (AvatarLoaded clips) s = avatarLoaded clips s"
| "step BasketballLoaded s = basketballLoaded s"
| "step (CourtLoaded children) s = createCourtCollisions children s"
| "step (KeyDown key) s = onKeyDown key s"
| "step (KeyUp key) s = onKeyUp key s"
| "step (MouseDown clientX clientY) s = onMouseDown clientX clientY s"
| "step MouseUp s = onMouseUp s"
| "step (MouseMove clientX clientY) s = onMouseMove clientX clientY s"
| "step (Wheel deltaY) s = onWheel deltaY s"
| "step (Frame delta) s = animate delta s"

definition run :: "event list \<Rightarrow> sim \<Rightarrow> sim" where
  "run events s = foldl (\<lambda>s' e. step e s') s events"

section \<open>Notions used to state the properties\<close>

text \<open>
  The offset of the hand that \<open>updateBasketballInHand\<close> computes on the paths that set
  the position of the ball (lines 671 to 697).
\<close>

definition handOffsetOf :: "sim \<Rightarrow> vec3" where
  "handOffsetOf s =
     (case (if isThrowingBall s then currentActionObject s else None) of
        None \<Rightarrow> Vec3 0 1 0.4
      | Some a \<Rightarrow>
          (let progress = animationProgress a
           in if progress \<le> 0.3 then
                Vec3 0 (1 - sin (progress / 0.3 * pi * 0.5) * 0.2)
                       (0.4 - sin (progress / 0.3 * pi * 0.5) * 0.1)
              else if progress \<le> 0.55 then
                Vec3 0 (1 + (- 0.2 + ((progress - 0.3) / 0.25) powr 0.3 * 0.9))
                       (0.4 + (- 0.1 + ((progress - 0.3) / 0.25) powr 0.3 * 0.15))
              else Vec3 0 (1 + 0.7) (0.4 + (0.05 - (progress - 0.55) / 0.25 * 0.3))))"

text \<open>
  The test of the release branch of \<open>updateBasketballInHand\<close>: a throw is under way
  and the progress of the current action is above 0.6.
\<close>

definition releasesNow :: "sim \<Rightarrow> bool" where
  "releasesNow s \<longleftrightarrow>
     isThrowingBall s \<and>
     (case currentActionObject s of None \<Rightarrow> False | Some a \<Rightarrow> animationProgress a > 0.6)"

text \<open>The state that \<open>handleMovement\<close> compares with \<open>currentState\<close>.\<close>

definition selectedState :: "sim \<Rightarrow> anim" where
  "selectedState s =
     (if vlength (moveDirOf s) > 0 then newStateOf s
      else if hasBall s then HoldingBall else Idle)"

text \<open>
  The avatar stands at height \<open>-1.5\<close> and the ball is not below its rest height on the
  ground, \<open>groundY + basketballRadius\<close>.
\<close>

definition aboveGround :: "sim \<Rightarrow> bool" where
  "aboveGround s \<longleftrightarrow>
     (case avatar s of None \<Rightarrow> True | Some av \<Rightarrow> vy (position av) = - 1.5) \<and>
     (case basketball s of None \<Rightarrow> True
      | Some ball \<Rightarrow> groundY + basketballRadius \<le> vy (position ball))"

text \<open>The part of the state that the scenarios below observe.\<close>

definition snapshot ::
  "sim \<Rightarrow> group option \<times> group option \<times> vec3 \<times> bool \<times> bool \<times> bool \<times> bool \<times>
          anim option \<times> action option \<times> listener list \<times> logmsg list" where
  "snapshot s =
     (avatar s, basketball s, basketballVelocity s, hasBall s, isThrowingBall s,
      ballWasThrown s, isTransitioning s, currentAction s, actions s ThrowBall, listeners s,
      console s)"

section \<open>Scenarios\<close>

text \<open>
  A model whose seven clips all last one second. The player walks to the ball (the key
  \<open>d\<close> for one frame of a second), picks it up (\<open>e\<close>, and a frame in which the crouch
  clip ends), and starts a throw (\<open>r\<close>).
\<close>

definition clips :: "(anim \<times> real) list" where
  "clips = [(Idle, 1), (Forward, 1), (Backward, 1), (Running, 1), (HoldingBall, 1),
            (StandingToCrouched, 1), (ThrowBall, 1)]"

definition pickup :: "event list" where
  "pickup = [AvatarLoaded clips, BasketballLoaded, KeyDown ''d'', Frame 1, KeyUp ''d'',
             KeyDown ''e'', Frame 1]"

definition windUp :: "event list" where
  "windUp = pickup @ [KeyDown ''r'', Frame 0.3]"

definition windUpLater :: "event list" where
  "windUpLater = windUp @ [Frame 0.28]"

definition release :: "event list" where
  "release = pickup @ [KeyDown ''r'', Frame 0.7]"

definition flight :: "event list" where
  "flight = release @ [Frame 0.1]"

definition completion :: "event list" where
  "completion = flight @ [Frame 0.2]"

text \<open>A court whose one collision box lies under the ball, and the ball at rest above it.\<close>

definition courtChildren :: "(string \<times> bool \<times> box3) list" where
  "courtChildren =
     [(''Object_7'', True, Box3 (Vec3 0.5 (- 1) (- 1)) (Vec3 1 (- 0.42) 1)),
      (''Object_21'', True, Box3 (Vec3 0 0 0) (Vec3 1 1 1))]"

definition onTheBox :: "event list" where
  "onTheBox = [BasketballLoaded, CourtLoaded courtChildren]"

text \<open>
  A box that carries the name \<open>'Object_28'\<close>, and the ball moving towards its left face.
\<close>

definition restrictedBox :: box3 where
  "restrictedBox = Box3 (Vec3 3.05 (- 5) (- 1)) (Vec3 5 0 1)"

definition besideRestrictedBox :: sim where
  "besideRestrictedBox =
     initial\<lparr>basketball := Some \<lparr>position = Vec3 2.9 (- 1.2) 0, rotationY = 0, visible = True\<rparr>,
             basketballVelocity := Vec3 1 0 0,
             collisionBoxes := [restrictedBox],
             collisionObjectNames := [''Object_28'']\<rparr>"

section \<open>Evaluation\<close>

text \<open>
  Comparing a square root with a numeral, for the distance tests of the program on
  concrete positions.
\<close>

lemma sqrt_le_numeral: "0 \<le> y \<Longrightarrow> sqrt x \<le> y \<longleftrightarrow> x \<le> y * y"
  by (metis abs_of_nonneg real_sqrt_abs2 real_sqrt_le_iff)

lemma sqrt_less_numeral: "0 \<le> y \<Longrightarrow> y < sqrt x \<longleftrightarrow> y * y < x"
  by (metis abs_of_nonneg real_sqrt_abs2 real_sqrt_less_iff)

lemma sqrt_times_le_numeral:
  "0 < c \<Longrightarrow> 0 \<le> y \<Longrightarrow> sqrt x * c \<le> y \<longleftrightarrow> x \<le> (y / c) * (y / c)"
  using sqrt_le_numeral[of "y / c" x] by (simp add: field_simps)

lemma sqrt_times_less_numeral:
  "0 < c \<Longrightarrow> 0 \<le> y \<Longrightarrow> y < sqrt x * c \<longleftrightarrow> (y / c) * (y / c) < x"
  using sqrt_less_numeral[of "y / c" x] by (simp add: field_simps)

lemmas vec_defs = vadd_def vsub_def multiplyScalar_def vlength_def normalizeVec_def distanceTo_def
  applyAxisAngleY_def atan2_def sqrt_le_numeral sqrt_less_numeral sqrt_times_le_numeral
  sqrt_times_less_numeral

lemmas const_defs = moveSpeed_def sprintSpeed_def gravity_def bounceReduction_def groundY_def
  pickupDistance_def basketballRadius_def characterRadius_def

lemmas anim_defs = clipAction_def consoleLog_def updateAction_def fadeOut_def fadeIn_def reset_def
  play_def bind_def addEventListener_def removeEventListener_def playAnimation_def
  currentActionObject_def animationProgress_def

lemmas box_defs = expandByScalar_def containsPoint_def isEmpty_def getCenter_def surfaceHit_def
  hitFaceOf_def nameAt_def restrictedSkip_def checkBasketballCollision_def checkCollision_def

lemmas ball_defs = throwBasketball_def setBallInHand_def updateBasketballInHand_def
  attachBasketballToHand_def resetBasketball_def applyGravity_def candidatePosition_def bounce_def
  courtCollision_def groundCollision_def updateBasketballPhysics_def canPickupBall_def

lemmas mixer_defs = onCrouchFinished_def onThrowFinished_def callListener_def dispatchFinished_def
  updateTime_def updateWeight_def actionUpdate_def mixerUpdate_def

lemmas move_defs = updateCameraPosition_def cameraForward_def cameraRight_def moveDirOf_def
  currentSpeedOf_def newStateOf_def handleMovement_def

lemmas event_defs = onKeyDown_def onKeyUp_def animate_def registerClip_def avatarLoaded_def
  basketballLoaded_def courtWorldBox_def addCourtChild_def createCourtCollisions_def
  onMouseDown_def onMouseUp_def onMouseMove_def onWheel_def run_def initial_def

lemmas run_defs = vec_defs const_defs anim_defs box_defs ball_defs mixer_defs move_defs event_defs
  Let_def

lemmas scenario_defs = clips_def pickup_def windUp_def windUpLater_def release_def flight_def
  completion_def courtChildren_def onTheBox_def restrictedBox_def besideRestrictedBox_def
  snapshot_def

section \<open>The collision query\<close>




lemma scanBoxes_append:
  "scanBoxes k (pre @ rest) names c =
     (case scanBoxes k pre names c of
        Some f \<Rightarrow> Some f
      | None \<Rightarrow> scanBoxes (k + length pre) rest names c)"
  by (induction pre arbitrary: k) (auto simp: Let_def split: option.split)

lemma scanBoxes_skip:
  assumes "nameAt names i = Some ''Object_28''"
      and "hitFaceOf basketballRadius b c \<noteq> Front" "hitFaceOf basketballRadius b c \<noteq> Back"
  shows "scanBoxes i (b # rest) names c = scanBoxes (Suc i) rest names c"
  using assms by (simp add: restrictedSkip_def Let_def)



section \<open>Restricted faces\<close>

text \<open>
  The loader gives a collision box to the meshes named \<open>'Object_7'\<close> only, so every
  name it adds to \<open>collisionObjectNames\<close> is that one; the test for \<open>'Object_28'\<close> in
  the query is a property of the query, whatever the two arrays hold.
\<close>

lemma addCourtChild_names:
  "set (collisionObjectNames (addCourtChild child s)) \<subseteq>
     set (collisionObjectNames s) \<union> {''Object_7''}"
  by (cases child) (auto simp: addCourtChild_def)

lemma createCourtCollisions_names:
  "set (collisionObjectNames (createCourtCollisions children s)) \<subseteq>
     set (collisionObjectNames s) \<union> {''Object_7''}"
proof -
  have "set (collisionObjectNames (foldl (\<lambda>s' child. addCourtChild child s') t children)) \<subseteq>
          set (collisionObjectNames t) \<union> {''Object_7''}" for t
  proof (induction children arbitrary: t)
    case Nil
    then show ?case by auto
  next
    case (Cons child children)
    from Cons.IH[of "addCourtChild child t"] addCourtChild_names[of child t]
    show ?case by auto
  qed
  from this[of "s\<lparr>collisionBoxes := []\<rparr>"] show ?thesis
    by (simp add: createCourtCollisions_def)
qed

text \<open>
  Claim C6. A box whose name is \<open>'Object_28'\<close> and whose classified face is neither
  front nor back counts as no collision: the scan goes on with the boxes after it.
  When no other box reports a hit either, the query reports no collision, and the
  collision step of the physics tick commits the candidate position and leaves every
  other field, the velocity among them, as it was.
\<close>

theorem restricted_face_is_no_collision:
  assumes "nameAt names i = Some ''Object_28''"
      and "hitFaceOf basketballRadius b c \<noteq> Front" and "hitFaceOf basketballRadius b c \<noteq> Back"
  shows "scanBoxes i (b # rest) names c = scanBoxes (Suc i) rest names c \<and>
         (\<forall>s ball delta pre.
            basketball s = Some ball \<and> candidatePosition delta s ball = c \<and>
            collisionBoxes s = pre @ b # rest \<and> length pre = i \<and>
            collisionObjectNames s = names \<and>
            scanBoxes 0 pre names c = None \<and> scanBoxes (Suc i) rest names c = None \<longrightarrow>
            checkBasketballCollision (collisionBoxes s) (collisionObjectNames s) c = None \<and>
            courtCollision delta s = s\<lparr>basketball := Some (ball\<lparr>position := c\<rparr>)\<rparr>)"
proof -
  have skip: "scanBoxes i (b # rest) names c = scanBoxes (Suc i) rest names c"
    using assms by (rule scanBoxes_skip)
  have "checkBasketballCollision (collisionBoxes s) (collisionObjectNames s) c = None \<and>
        courtCollision delta s = s\<lparr>basketball := Some (ball\<lparr>position := c\<rparr>)\<rparr>"
    if h: "basketball s = Some ball \<and> candidatePosition delta s ball = c \<and>
           collisionBoxes s = pre @ b # rest \<and> length pre = i \<and>
           collisionObjectNames s = names \<and>
           scanBoxes 0 pre names c = None \<and> scanBoxes (Suc i) rest names c = None"
    for s ball delta pre
  proof -
    have q: "checkBasketballCollision (collisionBoxes s) (collisionObjectNames s) c = None"
      using h skip by (simp add: checkBasketballCollision_def scanBoxes_append)
    then show ?thesis
      using h by (simp add: courtCollision_def Let_def)
  qed
  with skip show ?thesis by blast
qed

theorem restricted_face_is_no_collision_witness:
  "nameAt [''Object_28''] 0 = Some ''Object_28'' \<and>
   surfaceHit basketballRadius restrictedBox (Vec3 3 (- 1.2) 0) \<and>
   hitFaceOf basketballRadius restrictedBox (Vec3 3 (- 1.2) 0) = Left \<and>
   checkBasketballCollision [restrictedBox] [''Object_28''] (Vec3 3 (- 1.2) 0) = None \<and>
   courtCollision 0.1 besideRestrictedBox =
     besideRestrictedBox
       \<lparr>basketball := Some \<lparr>position = Vec3 3 (- 1.2) 0, rotationY = 0, visible = True\<rparr>\<rparr> \<and>
   basketballVelocity (courtCollision 0.1 besideRestrictedBox) = Vec3 1 0 0"
proof -
  let ?c = "Vec3 3 (- 1.2) 0"
  let ?ball = "\<lparr>position = Vec3 2.9 (- 1.2) 0, rotationY = 0, visible = True\<rparr>"
  have n: "nameAt [''Object_28''] 0 = Some ''Object_28''"
    by (simp add: nameAt_def)
  have hit: "surfaceHit basketballRadius restrictedBox ?c"
    by (simp add: box_defs const_defs restrictedBox_def)
  have f: "hitFaceOf basketballRadius restrictedBox ?c = Left"
    by (simp add: box_defs const_defs vec_defs restrictedBox_def Let_def)
  have pre: "basketball besideRestrictedBox = Some ?ball \<and>
             candidatePosition 0.1 besideRestrictedBox ?ball = ?c \<and>
             collisionBoxes besideRestrictedBox = [] @ restrictedBox # [] \<and>
             length ([] :: box3 list) = 0 \<and>
             collisionObjectNames besideRestrictedBox = [''Object_28''] \<and>
             scanBoxes 0 [] [''Object_28''] ?c = None \<and>
             scanBoxes (Suc 0) [] [''Object_28''] ?c = None"
    by (simp add: besideRestrictedBox_def initial_def candidatePosition_def vadd_def Let_def)
  from restricted_face_is_no_collision[of "[''Object_28'']" 0 restrictedBox ?c "[]"] n f
  have "\<forall>s ball delta pre.
            basketball s = Some ball \<and> candidatePosition delta s ball = ?c \<and>
            collisionBoxes s = pre @ restrictedBox # [] \<and> length pre = 0 \<and>
            collisionObjectNames s = [''Object_28''] \<and>
            scanBoxes 0 pre [''Object_28''] ?c = None \<and>
            scanBoxes (Suc 0) [] [''Object_28''] ?c = None \<longrightarrow>
            checkBasketballCollision (collisionBoxes s) (collisionObjectNames s) ?c = None \<and>
            courtCollision delta s = s\<lparr>basketball := Some (ball\<lparr>position := ?c\<rparr>)\<rparr>"
    by simp
  from this[rule_format, OF pre]
  have r: "checkBasketballCollision (collisionBoxes besideRestrictedBox)
             (collisionObjectNames besideRestrictedBox) ?c = None"
          "courtCollision 0.1 besideRestrictedBox =
             besideRestrictedBox\<lparr>basketball := Some (?ball\<lparr>position := ?c\<rparr>)\<rparr>"
    by simp_all
  have v: "basketballVelocity (courtCollision 0.1 besideRestrictedBox) = Vec3 1 0 0"
    unfolding r(2) by (simp add: besideRestrictedBox_def)
  from r(1) have q: "checkBasketballCollision [restrictedBox] [''Object_28''] ?c = None"
    by (simp add: besideRestrictedBox_def)
  from n hit f q r(2) v show ?thesis by simp
qed

section \<open>The ball stays above the ground\<close>

text \<open>
  In every state that the events can produce, the avatar stands at height \<open>-1.5\<close> and
  the ball is at or above its rest height: the movement of the character is
  horizontal, the hand is at least 0.8 above the feet, and a tick of free flight ends
  with the clamp to the ground.
\<close>

lemma foldl_preserves:
  assumes "\<And>x s. P s \<Longrightarrow> P (f s x)" and "P s"
  shows "P (foldl f s xs)"
  using assms(2) by (induction xs arbitrary: s) (simp_all add: assms(1))

lemma aboveGround_cong:
  "avatar t = avatar s \<Longrightarrow> basketball t = basketball s \<Longrightarrow> aboveGround t = aboveGround s"
  by (simp add: aboveGround_def)

lemma aboveGround_consoleLog: "aboveGround (consoleLog m s) = aboveGround s"
  by (simp add: aboveGround_def consoleLog_def)

lemma aboveGround_currentState: "aboveGround (s\<lparr>currentState := st\<rparr>) = aboveGround s"
  by (simp add: aboveGround_def)

lemma playAnimation_bodies:
  "avatar (playAnimation st s) = avatar s" "basketball (playAnimation st s) = basketball s"
  by (auto simp: playAnimation_def Let_def fadeOut_def fadeIn_def reset_def play_def bind_def
        addEventListener_def updateAction_def split: option.split)

lemma playAnimation_aboveGround: "aboveGround (playAnimation st s) = aboveGround s"
  by (rule aboveGround_cong) (rule playAnimation_bodies)+

lemma setBallInHand_aboveGround:
  assumes "aboveGround s" "0.12 \<le> vy h"
  shows "aboveGround (setBallInHand h s)"
  using assms
  by (auto simp: aboveGround_def setBallInHand_def vadd_def applyAxisAngleY_def groundY_def
        basketballRadius_def split: option.splits)

lemma throwBasketball_aboveGround: "aboveGround s \<Longrightarrow> aboveGround (throwBasketball s)"
  by (auto simp: aboveGround_def throwBasketball_def consoleLog_def Let_def split: option.splits)

lemma updateBasketballInHand_aboveGround:
  assumes "aboveGround s"
  shows "aboveGround (updateBasketballInHand s)"
proof -
  have flag: "\<And>b. aboveGround (s\<lparr>hasBall := b\<rparr>)"
    using assms by (simp add: aboveGround_def)
  have "aboveGround (consoleLog ReleasingBall (s\<lparr>hasBall := False\<rparr>))"
    using assms by (simp add: aboveGround_def consoleLog_def)
  then have rel: "aboveGround (throwBasketball (consoleLog ReleasingBall (s\<lparr>hasBall := False\<rparr>)))"
    by (rule throwBasketball_aboveGround)
  have s1: "\<And>x. aboveGround (setBallInHand (Vec3 0 (1 - sin x * 0.2) (0.4 - sin x * 0.1)) s)"
  proof -
    fix x :: real
    have "5 * sin x \<le> 22" using sin_le_one[of x] by linarith
    then show "aboveGround (setBallInHand (Vec3 0 (1 - sin x * 0.2) (0.4 - sin x * 0.1)) s)"
      using assms by (intro setBallInHand_aboveGround) simp_all
  qed
  have s2: "\<And>u::real. 0 \<le> u \<Longrightarrow>
              aboveGround (setBallInHand (Vec3 0 (1 + (- 0.2 + u * 0.9)) (0.4 + (- 0.1 + u * 0.15))) s)"
    using assms by (intro setBallInHand_aboveGround) simp_all
  have s3: "\<And>z. aboveGround (setBallInHand (Vec3 0 (1 + 0.7) z) s)"
    using assms by (intro setBallInHand_aboveGround) simp_all
  have s0: "aboveGround (setBallInHand (Vec3 0 1 0.4) s)"
    using assms by (intro setBallInHand_aboveGround) simp_all
  show ?thesis
    unfolding updateBasketballInHand_def Let_def
    using assms flag rel s0 s1 s2 s3
    by (auto split: option.split)
qed

lemma attachBasketballToHand_aboveGround:
  assumes "aboveGround s"
  shows "aboveGround (attachBasketballToHand s)"
proof (cases "basketball s")
  case None
  with assms show ?thesis by (simp add: attachBasketballToHand_def)
next
  case (Some ball)
  note ball = Some
  show ?thesis
  proof (cases "avatar s")
    case None
    with ball assms show ?thesis by (simp add: attachBasketballToHand_def)
  next
    case (Some av)
    have "aboveGround (s\<lparr>basketball := Some (ball\<lparr>visible := True\<rparr>)\<rparr>)"
      using assms ball by (simp add: aboveGround_def)
    then show ?thesis
      using ball Some
      by (simp add: attachBasketballToHand_def updateBasketballInHand_aboveGround)
  qed
qed

lemma onCrouchFinished_aboveGround:
  assumes "aboveGround s"
  shows "aboveGround (onCrouchFinished s)"
proof -
  define s3 where "s3 = (removeEventListener (bindCount s, OnCrouchFinished)
                           (s\<lparr>bindCount := Suc (bindCount s)\<rparr>))
                          \<lparr>isCrouched := True, hasBall := True, isTransitioning := False,
                            ballWasThrown := False\<rparr>"
  have eq: "onCrouchFinished s =
              consoleLog BallPickupCompleted
                ((playAnimation HoldingBall (attachBasketballToHand s3))\<lparr>currentState := HoldingBall\<rparr>)"
    by (simp add: onCrouchFinished_def bind_def Let_def s3_def)
  have "aboveGround s3"
    using assms by (simp add: aboveGround_def removeEventListener_def s3_def)
  then have "aboveGround (attachBasketballToHand s3)"
    by (rule attachBasketballToHand_aboveGround)
  then show ?thesis
    by (simp add: eq aboveGround_consoleLog aboveGround_currentState playAnimation_aboveGround)
qed

lemma onThrowFinished_aboveGround:
  assumes "aboveGround s"
  shows "aboveGround (onThrowFinished s)"
proof -
  define s4 where "s4 = consoleLog ThrowAnimationFinished
               ((removeEventListener (bindCount s, OnThrowFinished) (s\<lparr>bindCount := Suc (bindCount s)\<rparr>))
                  \<lparr>isCrouched := False, isTransitioning := False, isThrowingBall := False,
                    hasBall := False\<rparr>)"
  have eq: "onThrowFinished s = (playAnimation Idle s4)\<lparr>currentState := Idle\<rparr>"
    by (simp add: onThrowFinished_def bind_def Let_def s4_def)
  have "aboveGround s4"
    using assms by (simp add: aboveGround_def removeEventListener_def consoleLog_def s4_def)
  then show ?thesis
    by (simp add: eq aboveGround_currentState playAnimation_aboveGround)
qed

lemma callListener_aboveGround: "aboveGround s \<Longrightarrow> aboveGround (callListener l s)"
  by (cases "snd l")
     (simp_all add: callListener_def onCrouchFinished_aboveGround onThrowFinished_aboveGround)

lemma dispatchFinished_aboveGround: "aboveGround s \<Longrightarrow> aboveGround (dispatchFinished s)"
  unfolding dispatchFinished_def
  by (rule foldl_preserves) (rule callListener_aboveGround)

lemma updateAction_aboveGround: "aboveGround (updateAction k f s) = aboveGround s"
  by (simp add: aboveGround_def updateAction_def)

lemma updateTime_aboveGround:
  assumes "aboveGround s"
  shows "aboveGround (updateTime k d s)"
proof (cases "actions s k")
  case None
  with assms show ?thesis by (simp add: updateTime_def)
next
  case (Some a)
  have "\<And>f. aboveGround (dispatchFinished (updateAction k f s))"
    by (rule dispatchFinished_aboveGround) (simp add: updateAction_aboveGround assms)
  with Some assms show ?thesis
    by (simp add: updateTime_def Let_def updateAction_aboveGround)
qed

lemma updateWeight_aboveGround:
  assumes "aboveGround s"
  shows "aboveGround (updateWeight k s)"
proof (cases "actions s k")
  case None
  with assms show ?thesis by (simp add: updateWeight_def)
next
  case (Some a)
  with assms show ?thesis
    by (cases "fading a") (simp_all add: updateWeight_def updateAction_aboveGround)
qed

lemma actionUpdate_aboveGround:
  assumes "aboveGround s"
  shows "aboveGround (actionUpdate d k s)"
proof (cases "actions s k")
  case None
  with assms show ?thesis by (simp add: actionUpdate_def)
next
  case (Some a)
  have "\<And>x. aboveGround (updateWeight k (updateTime k x s))"
    by (intro updateWeight_aboveGround updateTime_aboveGround assms)
  with Some assms show ?thesis
    by (simp add: actionUpdate_def)
qed

lemma mixerUpdate_aboveGround:
  assumes "aboveGround s"
  shows "aboveGround (mixerUpdate d s)"
proof -
  have "aboveGround (s\<lparr>mixerTime := mixerTime s + d\<rparr>)"
    using assms by (simp add: aboveGround_def)
  then show ?thesis
    unfolding mixerUpdate_def Let_def
    by (rule foldl_preserves[rotated]) (rule actionUpdate_aboveGround)
qed

lemma updateCameraPosition_aboveGround:
  "aboveGround (updateCameraPosition s) = aboveGround s"
  by (rule aboveGround_cong) (simp_all add: updateCameraPosition_def Let_def)

lemma moveDirOf_level: "vy (moveDirOf s) = 0"
  by (simp add: moveDirOf_def cameraForward_def cameraRight_def vadd_def vsub_def Let_def)

lemma handleMovement_aboveGround:
  assumes "aboveGround s"
  shows "aboveGround (handleMovement d s)"
proof (cases "avatar s")
  case None
  with assms show ?thesis by (simp add: handleMovement_def)
next
  case (Some av)
  have y: "vy (position av) = - 1.5"
    using assms Some by (simp add: aboveGround_def)
  have lvl: "vy (normalizeVec (moveDirOf s)) = 0"
    by (simp add: normalizeVec_def multiplyScalar_def moveDirOf_level)
  have m1: "\<And>k a. aboveGround
              (s\<lparr>avatar := Some (av\<lparr>position :=
                    vadd (position av) (multiplyScalar k (normalizeVec (moveDirOf s))),
                    rotationY := a\<rparr>)\<rparr>)"
    using assms y lvl by (simp add: aboveGround_def vadd_def multiplyScalar_def)
  have m2: "\<And>a. aboveGround (s\<lparr>avatar := Some (av\<lparr>rotationY := a\<rparr>)\<rparr>)"
    using assms y by (simp add: aboveGround_def)
  show ?thesis
    using Some assms m1 m2
    by (simp add: handleMovement_def Let_def updateCameraPosition_aboveGround
          playAnimation_aboveGround aboveGround_currentState)
qed

lemma groundCollision_aboveGround:
  assumes "case avatar s of None \<Rightarrow> True | Some av \<Rightarrow> vy (position av) = - 1.5"
  shows "aboveGround (groundCollision s)"
  using assms by (auto simp: aboveGround_def groundCollision_def Let_def split: option.split)

lemma updateBasketballPhysics_aboveGround:
  assumes "aboveGround s"
  shows "aboveGround (updateBasketballPhysics d s)"
proof (cases "basketball s")
  case None
  with assms show ?thesis by (simp add: updateBasketballPhysics_def)
next
  case (Some ball)
  have av: "case avatar (courtCollision d (applyGravity d s)) of None \<Rightarrow> True
            | Some av \<Rightarrow> vy (position av) = - 1.5"
    using assms
    by (auto simp: aboveGround_def courtCollision_def applyGravity_def Let_def split: option.split)
  have r: "aboveGround (resetBasketball s)"
    using assms Some
    by (simp add: aboveGround_def resetBasketball_def groundY_def basketballRadius_def)
  show ?thesis
    using Some assms r groundCollision_aboveGround[OF av]
    by (simp add: updateBasketballPhysics_def updateBasketballInHand_aboveGround)
qed

lemma animate_aboveGround: "aboveGround s \<Longrightarrow> aboveGround (animate d s)"
  by (simp add: animate_def Let_def updateCameraPosition_aboveGround
        updateBasketballPhysics_aboveGround handleMovement_aboveGround mixerUpdate_aboveGround)

lemma onKeyDown_aboveGround:
  assumes "aboveGround s"
  shows "aboveGround (onKeyDown key s)"
proof -
  have "\<And>t st. avatar t = avatar s \<Longrightarrow> basketball t = basketball s \<Longrightarrow>
          aboveGround ((playAnimation st t)\<lparr>currentState := st\<rparr>)"
    using assms by (simp add: aboveGround_def playAnimation_bodies)
  moreover have "aboveGround (s\<lparr>keys := (keys s)(key := True)\<rparr>)"
    using assms by (simp add: aboveGround_def)
  ultimately show ?thesis
    by (simp add: onKeyDown_def Let_def consoleLog_def)
qed

lemma onKeyUp_aboveGround: "aboveGround s \<Longrightarrow> aboveGround (onKeyUp key s)"
  by (simp add: aboveGround_def onKeyUp_def)

lemma registerClip_bodies:
  "avatar (registerClip c s) = avatar s" "basketball (registerClip c s) = basketball s"
  by (simp_all add: registerClip_def Let_def split: prod.split)

lemma avatarLoaded_aboveGround:
  assumes "aboveGround s"
  shows "aboveGround (avatarLoaded cs s)"
proof -
  let ?s1 = "s\<lparr>avatar := Some \<lparr>position = Vec3 0 (- 1.5) 0, rotationY = 0, visible = True\<rparr>,
               mixerLoaded := True, mixerTime := 0, mixerActions := [], listeners := []\<rparr>"
  have s1: "aboveGround ?s1" using assms by (simp add: aboveGround_def)
  then have "aboveGround (foldl (\<lambda>s' c. registerClip c s') ?s1 cs)"
    by (rule foldl_preserves[rotated]) (simp add: aboveGround_def registerClip_bodies)
  with s1 show ?thesis
    by (simp add: avatarLoaded_def Let_def playAnimation_aboveGround)
qed

lemma basketballLoaded_aboveGround: "aboveGround s \<Longrightarrow> aboveGround (basketballLoaded s)"
  by (simp add: aboveGround_def basketballLoaded_def groundY_def basketballRadius_def)

lemma createCourtCollisions_aboveGround:
  assumes "aboveGround s"
  shows "aboveGround (createCourtCollisions children s)"
proof -
  have "aboveGround (s\<lparr>collisionBoxes := []\<rparr>)" using assms by (simp add: aboveGround_def)
  then show ?thesis
    unfolding createCourtCollisions_def
    by (rule foldl_preserves[rotated])
       (simp add: aboveGround_def addCourtChild_def Let_def split: prod.split)
qed

lemma mouse_aboveGround:
  "aboveGround (onMouseDown x y s) = aboveGround s"
  "aboveGround (onMouseUp s) = aboveGround s"
  "aboveGround (onMouseMove x y s) = aboveGround s"
  "aboveGround (onWheel d s) = aboveGround s"
  by (simp_all add: aboveGround_def onMouseDown_def onMouseUp_def onMouseMove_def onWheel_def
        Let_def)

lemma step_aboveGround: "aboveGround s \<Longrightarrow> aboveGround (step e s)"
  by (cases e)
     (simp_all add: avatarLoaded_aboveGround basketballLoaded_aboveGround
        createCourtCollisions_aboveGround onKeyDown_aboveGround onKeyUp_aboveGround
        mouse_aboveGround animate_aboveGround)

lemma run_aboveGround: "aboveGround (run es initial)"
  unfolding run_def
proof (rule foldl_preserves)
  show "\<And>x s. aboveGround s \<Longrightarrow> aboveGround (step x s)" by (rule step_aboveGround)
  show "aboveGround initial" by (simp add: aboveGround_def initial_def)
qed

section \<open>The tick of free flight\<close>

lemma free_flight_tick:
  assumes "basketball s = Some ball" "\<not> hasBall s"
      and "\<not> vy (position ball) < - 10" "\<not> vlength (position ball) > 50"
  shows "updateBasketballPhysics delta s =
           groundCollision (courtCollision delta (applyGravity delta s))"
  using assms by (simp add: updateBasketballPhysics_def)

lemma applyGravity_fields [simp]:
  "basketball (applyGravity delta s) = basketball s"
  "collisionBoxes (applyGravity delta s) = collisionBoxes s"
  "collisionObjectNames (applyGravity delta s) = collisionObjectNames s"
  "basketballVelocity (applyGravity delta s) =
     Vec3 (vx (basketballVelocity s)) (vy (basketballVelocity s) + gravity * delta)
          (vz (basketballVelocity s))"
  by (simp_all add: applyGravity_def Let_def)

lemma courtCollision_hit:
  assumes "basketball s = Some ball"
      and "checkBasketballCollision (collisionBoxes s) (collisionObjectNames s)
             (candidatePosition delta s ball) = Some f"
  shows "courtCollision delta s =
           s\<lparr>basketballVelocity := multiplyScalar 0.9 (bounce f (basketballVelocity s))\<rparr>"
  using assms by (simp add: courtCollision_def Let_def)

lemma groundCollision_above:
  assumes "basketball s = Some ball" "groundY + basketballRadius < vy (position ball)"
  shows "groundCollision s = s"
  using assms by (simp add: groundCollision_def)

lemma groundCollision_position:
  assumes "basketball s = Some ball" "groundY + basketballRadius \<le> vy (position ball)"
  shows "basketball (groundCollision s) = Some ball"
proof (cases "vy (position ball) = groundY + basketballRadius")
  case True
  have "Vec3 (vx (position ball)) (groundY + basketballRadius) (vz (position ball)) = position ball"
    using True vec3.collapse[of "position ball"] by simp
  then have "ball\<lparr>position := Vec3 (vx (position ball)) (groundY + basketballRadius) (vz (position ball))\<rparr> = ball"
    by simp
  with assms True show ?thesis by (simp add: groundCollision_def Let_def)
next
  case False
  with assms show ?thesis by (simp add: groundCollision_def)
qed

text \<open>
  Claim C8. When the collision query of a tick of free flight reports the face \<open>f\<close>,
  the response sets the velocity component on the axis of that face to its absolute
  value times 0.8, with the sign that the face fixes (negative for top, right and
  front, positive for bottom, left and back), and then scales all three components by
  0.9; \<open>v\<close> is the velocity the response starts from, which in the tick is the
  velocity after gravity. For the top face the vertical velocity after the response
  is at most 0. When the ball is above its rest height, the ground step that ends the
  tick leaves this velocity as it is.
\<close>

theorem bounce_response_velocity:
  assumes "basketball s = Some ball"
      and "checkBasketballCollision (collisionBoxes s) (collisionObjectNames s)
             (candidatePosition delta s ball) = Some f"
      and "v = basketballVelocity s" and "v' = basketballVelocity (courtCollision delta s)"
  shows "(f = Top \<longrightarrow> v' = Vec3 (vx v * 0.9) (- \<bar>vy v\<bar> * 0.8 * 0.9) (vz v * 0.9) \<and> vy v' \<le> 0) \<and>
         (f = Bottom \<longrightarrow> v' = Vec3 (vx v * 0.9) (\<bar>vy v\<bar> * 0.8 * 0.9) (vz v * 0.9) \<and> vy v' \<ge> 0) \<and>
         (f = Left \<longrightarrow> v' = Vec3 (\<bar>vx v\<bar> * 0.8 * 0.9) (vy v * 0.9) (vz v * 0.9) \<and> vx v' \<ge> 0) \<and>
         (f = Right \<longrightarrow> v' = Vec3 (- \<bar>vx v\<bar> * 0.8 * 0.9) (vy v * 0.9) (vz v * 0.9) \<and> vx v' \<le> 0) \<and>
         (f = Front \<longrightarrow> v' = Vec3 (vx v * 0.9) (vy v * 0.9) (- \<bar>vz v\<bar> * 0.8 * 0.9) \<and> vz v' \<le> 0) \<and>
         (f = Back \<longrightarrow> v' = Vec3 (vx v * 0.9) (vy v * 0.9) (\<bar>vz v\<bar> * 0.8 * 0.9) \<and> vz v' \<ge> 0) \<and>
         (groundY + basketballRadius < vy (position ball) \<longrightarrow>
            basketballVelocity (groundCollision (courtCollision delta s)) = v')"
proof -
  have c: "courtCollision delta s =
             s\<lparr>basketballVelocity := multiplyScalar 0.9 (bounce f (basketballVelocity s))\<rparr>"
    using assms(1,2) by (rule courtCollision_hit)
  have g: "groundY + basketballRadius < vy (position ball) \<Longrightarrow>
             groundCollision (courtCollision delta s) = courtCollision delta s"
    by (rule groundCollision_above[where ball = ball]) (simp_all add: c assms(1))
  show ?thesis
    using g by (cases f) (simp_all add: c assms(3,4) bounce_def multiplyScalar_def)
qed

lemma onTheBox_state:
  "basketball (run onTheBox initial) =
     Some \<lparr>position = Vec3 3 (- 1.2) 0, rotationY = 0, visible = True\<rparr>"
  "basketballVelocity (run onTheBox initial) = Vec3 0 0 0"
  "\<not> hasBall (run onTheBox initial)"
  "collisionBoxes (run onTheBox initial) = [Box3 (Vec3 2 (- 5.1) (- 3)) (Vec3 4 (- 1.36) 3)]"
  "collisionObjectNames (run onTheBox initial) = [''Object_7'']"
  by (simp_all add: event_defs scenario_defs Let_def)

theorem bounce_response_velocity_witness:
  "basketball (applyGravity 0.1 (run onTheBox initial)) =
     Some \<lparr>position = Vec3 3 (- 1.2) 0, rotationY = 0, visible = True\<rparr> \<and>
   basketballVelocity (applyGravity 0.1 (run onTheBox initial)) = Vec3 0 (- 0.981) 0 \<and>
   checkBasketballCollision (collisionBoxes (applyGravity 0.1 (run onTheBox initial)))
     (collisionObjectNames (applyGravity 0.1 (run onTheBox initial)))
     (candidatePosition 0.1 (applyGravity 0.1 (run onTheBox initial))
        \<lparr>position = Vec3 3 (- 1.2) 0, rotationY = 0, visible = True\<rparr>) = Some Top \<and>
   basketballVelocity (courtCollision 0.1 (applyGravity 0.1 (run onTheBox initial))) =
     Vec3 0 (- 0.70632) 0 \<and>
   basketballVelocity
     (groundCollision (courtCollision 0.1 (applyGravity 0.1 (run onTheBox initial)))) =
     Vec3 0 (- 0.70632) 0"
proof -
  let ?s = "applyGravity 0.1 (run onTheBox initial)"
  let ?ball = "\<lparr>position = Vec3 3 (- 1.2) 0, rotationY = 0, visible = True\<rparr>"
  have b: "basketball ?s = Some ?ball"
    by (simp add: onTheBox_state)
  have v: "basketballVelocity ?s = Vec3 0 (- 0.981) 0"
    by (simp add: onTheBox_state gravity_def)
  have c: "candidatePosition 0.1 ?s ?ball = Vec3 3 (- 1.2981) 0"
    by (simp add: candidatePosition_def onTheBox_state gravity_def vadd_def Let_def)
  have q: "checkBasketballCollision (collisionBoxes ?s) (collisionObjectNames ?s)
             (candidatePosition 0.1 ?s ?ball) = Some Top"
    unfolding c by (simp add: onTheBox_state box_defs const_defs vec_defs Let_def)
  have above: "groundY + basketballRadius < vy (position ?ball)"
    by (simp add: groundY_def basketballRadius_def)
  from bounce_response_velocity[OF b q refl refl] above
  have "basketballVelocity (courtCollision 0.1 ?s) =
          Vec3 (vx (basketballVelocity ?s) * 0.9) (- \<bar>vy (basketballVelocity ?s)\<bar> * 0.8 * 0.9)
               (vz (basketballVelocity ?s) * 0.9)"
       "basketballVelocity (groundCollision (courtCollision 0.1 ?s)) =
          basketballVelocity (courtCollision 0.1 ?s)"
    by simp_all
  then have "basketballVelocity (courtCollision 0.1 ?s) = Vec3 0 (- 0.70632) 0"
            "basketballVelocity (groundCollision (courtCollision 0.1 ?s)) = Vec3 0 (- 0.70632) 0"
    by (simp_all add: onTheBox_state gravity_def)
  with b v q show ?thesis by simp
qed

text \<open>
  Claim C9. In a state that the events can produce, a tick of free flight whose
  collision query reports a box face leaves the ball where it was, on all three axes:
  the whole candidate step is dropped. The tick changes the velocity only, by gravity,
  the bounce and the ground step.
\<close>

theorem box_hit_discards_step:
  assumes "s = run es initial"
      and "basketball s = Some ball" and "\<not> hasBall s" and "\<not> vlength (position ball) > 50"
      and "checkBasketballCollision (collisionBoxes s) (collisionObjectNames s)
             (candidatePosition delta (applyGravity delta s) ball) = Some f"
  shows "basketball (updateBasketballPhysics delta s) = Some ball \<and>
         updateBasketballPhysics delta s =
           groundCollision
             (s\<lparr>basketballVelocity :=
                  multiplyScalar 0.9
                    (bounce f (Vec3 (vx (basketballVelocity s))
                                    (vy (basketballVelocity s) + gravity * delta)
                                    (vz (basketballVelocity s))))\<rparr>)"
proof -
  let ?g = "applyGravity delta s"
  have inv: "aboveGround s"
    unfolding assms(1) by (rule run_aboveGround)
  then have rest: "groundY + basketballRadius \<le> vy (position ball)"
    using assms(2) by (simp add: aboveGround_def)
  then have deep: "\<not> vy (position ball) < - 10"
    by (simp add: groundY_def basketballRadius_def)
  have c: "courtCollision delta ?g =
             ?g\<lparr>basketballVelocity := multiplyScalar 0.9 (bounce f (basketballVelocity ?g))\<rparr>"
    by (rule courtCollision_hit[where ball = ball]) (simp_all add: assms(2,5))
  have b: "basketball (courtCollision delta ?g) = Some ball"
    by (simp add: c assms(2))
  have t: "updateBasketballPhysics delta s = groundCollision (courtCollision delta ?g)"
    using assms(2,3) deep assms(4) by (rule free_flight_tick)
  have e: "courtCollision delta ?g =
             s\<lparr>basketballVelocity :=
                  multiplyScalar 0.9
                    (bounce f (Vec3 (vx (basketballVelocity s))
                                    (vy (basketballVelocity s) + gravity * delta)
                                    (vz (basketballVelocity s))))\<rparr>"
    unfolding c by (simp add: applyGravity_def Let_def)
  from groundCollision_position[OF b rest] t e show ?thesis by simp
qed

theorem box_hit_discards_step_witness:
  "basketball (run onTheBox initial) =
     Some \<lparr>position = Vec3 3 (- 1.2) 0, rotationY = 0, visible = True\<rparr> \<and>
   \<not> hasBall (run onTheBox initial) \<and>
   checkBasketballCollision (collisionBoxes (run onTheBox initial))
     (collisionObjectNames (run onTheBox initial))
     (candidatePosition 0.1 (applyGravity 0.1 (run onTheBox initial))
        \<lparr>position = Vec3 3 (- 1.2) 0, rotationY = 0, visible = True\<rparr>) = Some Top \<and>
   basketball (updateBasketballPhysics 0.1 (run onTheBox initial)) =
     Some \<lparr>position = Vec3 3 (- 1.2) 0, rotationY = 0, visible = True\<rparr>"
proof -
  let ?s = "run onTheBox initial"
  let ?ball = "\<lparr>position = Vec3 3 (- 1.2) 0, rotationY = 0, visible = True\<rparr>"
  have b: "basketball ?s = Some ?ball" and h: "\<not> hasBall ?s"
    by (simp_all add: onTheBox_state)
  have far: "\<not> vlength (position ?ball) > 50"
    by (simp add: vec_defs)
  have c: "candidatePosition 0.1 (applyGravity 0.1 ?s) ?ball = Vec3 3 (- 1.2981) 0"
    by (simp add: candidatePosition_def onTheBox_state gravity_def vadd_def Let_def)
  have q: "checkBasketballCollision (collisionBoxes ?s) (collisionObjectNames ?s)
             (candidatePosition 0.1 (applyGravity 0.1 ?s) ?ball) = Some Top"
    unfolding c by (simp add: onTheBox_state box_defs const_defs vec_defs Let_def)
  have "basketball (updateBasketballPhysics 0.1 ?s) = Some ?ball"
    by (rule box_hit_discards_step[OF refl b h far q, THEN conjunct1])
  with b h q show ?thesis by simp
qed

section \<open>The ball in the hand\<close>

lemma updateBasketballInHand_follow:
  assumes "basketball s = Some ball" "avatar s = Some av" "hasBall s" "\<not> ballWasThrown s"
      and "isThrowingBall s \<or> \<not> vlength (basketballVelocity s) > 0.1"
      and "\<not> releasesNow s"
  shows "updateBasketballInHand s =
           s\<lparr>basketball := Some (ball\<lparr>position :=
                vadd (position av) (applyAxisAngleY (rotationY av) (handOffsetOf s))\<rparr>)\<rparr>"
proof (cases "if isThrowingBall s then currentActionObject s else None")
  case None
  with assms show ?thesis
    by (auto simp: updateBasketballInHand_def handOffsetOf_def setBallInHand_def)
next
  case (Some a)
  then have t: "isThrowingBall s" "currentActionObject s = Some a"
    by (auto split: if_splits)
  with assms(6) have p: "animationProgress a \<le> 0.6" by (auto simp: releasesNow_def)
  show ?thesis
    using assms(1-5) t p
    by (simp add: updateBasketballInHand_def handOffsetOf_def setBallInHand_def Let_def)
qed

text \<open>
  Claim C10. A physics tick that starts with \<open>hasBall\<close> true, passes the guards of the
  hand-following code (ball and avatar loaded, \<open>ballWasThrown\<close> false, and a velocity
  of length at most 0.1 unless a throw is under way) and does not release the ball,
  returns the state it started from with one change: the position of the ball is the
  position of the avatar plus the hand offset rotated by the yaw of the avatar. The
  velocity and every other field are as before, so neither gravity nor a collision or
  ground response nor a safety reset has run.
\<close>

theorem held_tick_is_kinematic:
  assumes "basketball s = Some ball" "avatar s = Some av" "hasBall s" "\<not> ballWasThrown s"
      and "isThrowingBall s \<or> \<not> vlength (basketballVelocity s) > 0.1"
      and "\<not> releasesNow s"
  shows "updateBasketballPhysics delta s =
           s\<lparr>basketball := Some (ball\<lparr>position :=
                vadd (position av) (applyAxisAngleY (rotationY av) (handOffsetOf s))\<rparr>)\<rparr>"
  using updateBasketballInHand_follow[OF assms] assms(1,3)
  by (simp add: updateBasketballPhysics_def)

section \<open>Scenario states\<close>

lemma snapshot_pickup:
  "snapshot (run pickup initial) =
     (Some \<lparr>position = Vec3 2 (- 1.5) 0, rotationY = pi / 2, visible = True\<rparr>,
      Some \<lparr>position = Vec3 2.4 (- 0.5) 0, rotationY = 0, visible = True\<rparr>,
      Vec3 0 0 0, True, False, False, False, Some HoldingBall,
      Some \<lparr>clipDuration = 1, loopOnce = True, time = 0, paused = False, enabled = True,
             fading = NoFade\<rparr>,
      [(0, OnCrouchFinished)],
      [PickingUpBall, BallPickupCompleted])"
  by (simp add: run_defs scenario_defs)

lemma snapshot_windUp:
  "snapshot (run windUp initial) =
     (Some \<lparr>position = Vec3 2 (- 1.5) 0, rotationY = pi / 2, visible = True\<rparr>,
      Some \<lparr>position = Vec3 2.3 (- 0.7) 0, rotationY = 0, visible = True\<rparr>,
      Vec3 0 0 0, True, True, False, True, Some ThrowBall,
      Some \<lparr>clipDuration = 1, loopOnce = True, time = 0.3, paused = False, enabled = True,
             fading = FadeIn 2.3\<rparr>,
      [(0, OnCrouchFinished), (2, OnThrowFinished)],
      [PickingUpBall, BallPickupCompleted, StartingThrowAnimation])"
  by (simp add: run_defs scenario_defs)



lemma snapshot_replay:
  "snapshot (playAnimation ThrowBall (run windUp initial)) =
     (Some \<lparr>position = Vec3 2 (- 1.5) 0, rotationY = pi / 2, visible = True\<rparr>,
      Some \<lparr>position = Vec3 2.3 (- 0.7) 0, rotationY = 0, visible = True\<rparr>,
      Vec3 0 0 0, True, True, False, True, Some ThrowBall,
      Some \<lparr>clipDuration = 1, loopOnce = True, time = 0, paused = False, enabled = True,
             fading = FadeIn 2.6\<rparr>,
      [(0, OnCrouchFinished), (2, OnThrowFinished), (3, OnThrowFinished)],
      [PickingUpBall, BallPickupCompleted, StartingThrowAnimation])"
  by (simp add: run_defs scenario_defs)

lemma snapshot_release:
  "snapshot (run release initial) =
     (Some \<lparr>position = Vec3 2 (- 1.5) 0, rotationY = pi / 2, visible = True\<rparr>,
      Some \<lparr>position = Vec3 2.4 (- 0.5) 0, rotationY = 0, visible = True\<rparr>,
      Vec3 8 6 0, False, True, True, True, Some ThrowBall,
      Some \<lparr>clipDuration = 1, loopOnce = True, time = 0.7, paused = False, enabled = True,
             fading = NoFade\<rparr>,
      [(0, OnCrouchFinished), (2, OnThrowFinished)],
      [PickingUpBall, BallPickupCompleted, StartingThrowAnimation, ReleasingBall,
       BasketballThrown])"
  by (simp add: run_defs scenario_defs)

lemma snapshot_flight:
  "snapshot (run flight initial) =
     (Some \<lparr>position = Vec3 2 (- 1.5) 0, rotationY = pi / 2, visible = True\<rparr>,
      Some \<lparr>position = Vec3 3.2 0.0019 0, rotationY = 0, visible = True\<rparr>,
      Vec3 8 5.019 0, False, True, True, True, Some ThrowBall,
      Some \<lparr>clipDuration = 1, loopOnce = True, time = 0.8, paused = False, enabled = True,
             fading = NoFade\<rparr>,
      [(0, OnCrouchFinished), (2, OnThrowFinished)],
      [PickingUpBall, BallPickupCompleted, StartingThrowAnimation, ReleasingBall,
       BasketballThrown])"
  by (simp add: run_defs scenario_defs)

lemma snapshot_completion:
  "snapshot (run completion initial) =
     (Some \<lparr>position = Vec3 2 (- 1.5) 0, rotationY = pi / 2, visible = True\<rparr>,
      Some \<lparr>position = Vec3 4.8 0.8095 0, rotationY = 0, visible = True\<rparr>,
      Vec3 8 4.038 0, False, False, True, False, Some Idle,
      Some \<lparr>clipDuration = 1, loopOnce = True, time = 1, paused = True, enabled = True,
             fading = FadeOut 3.3\<rparr>,
      [(0, OnCrouchFinished), (2, OnThrowFinished)],
      [PickingUpBall, BallPickupCompleted, StartingThrowAnimation, ReleasingBall,
       BasketballThrown, ReleasingBall, BasketballThrown, BallPickupCompleted,
       ThrowAnimationFinished])"
  by (simp add: run_defs scenario_defs)

theorem held_tick_is_kinematic_witness:
  "hasBall (run pickup initial) \<and> \<not> ballWasThrown (run pickup initial) \<and>
   \<not> releasesNow (run pickup initial) \<and>
   updateBasketballPhysics 0.02 (run pickup initial) =
     (run pickup initial)
       \<lparr>basketball := Some \<lparr>position = Vec3 2.4 (- 0.5) 0, rotationY = 0, visible = True\<rparr>\<rparr> \<and>
   hasBall (run windUp initial) \<and> isThrowingBall (run windUp initial) \<and>
   \<not> releasesNow (run windUp initial) \<and>
   updateBasketballPhysics 0.02 (run windUp initial) =
     (run windUp initial)
       \<lparr>basketball := Some \<lparr>position = Vec3 2.3 (- 0.7) 0, rotationY = 0, visible = True\<rparr>\<rparr>"
proof -
  let ?av = "\<lparr>position = Vec3 2 (- 1.5) 0, rotationY = pi / 2, visible = True\<rparr>"
  let ?b1 = "\<lparr>position = Vec3 2.4 (- 0.5) 0, rotationY = 0, visible = True\<rparr>"
  let ?b2 = "\<lparr>position = Vec3 2.3 (- 0.7) 0, rotationY = 0, visible = True\<rparr>"
  let ?p = "run pickup initial"
  let ?w = "run windUp initial"
  have p: "basketball ?p = Some ?b1" "avatar ?p = Some ?av" "hasBall ?p" "\<not> ballWasThrown ?p"
    "\<not> isThrowingBall ?p" "basketballVelocity ?p = Vec3 0 0 0"
    using snapshot_pickup by (simp_all add: snapshot_def)
  have pv: "isThrowingBall ?p \<or> \<not> vlength (basketballVelocity ?p) > 0.1"
    by (simp add: p vlength_def)
  have pr: "\<not> releasesNow ?p"
    by (simp add: releasesNow_def p)
  have po: "handOffsetOf ?p = Vec3 0 1 0.4"
    by (simp add: handOffsetOf_def p)
  have w: "basketball ?w = Some ?b2" "avatar ?w = Some ?av" "hasBall ?w" "\<not> ballWasThrown ?w"
    "isThrowingBall ?w" "currentAction ?w = Some ThrowBall"
    "actions ?w ThrowBall =
       Some \<lparr>clipDuration = 1, loopOnce = True, time = 0.3, paused = False, enabled = True,
              fading = FadeIn 2.3\<rparr>"
    using snapshot_windUp by (simp_all add: snapshot_def)
  have wv: "isThrowingBall ?w \<or> \<not> vlength (basketballVelocity ?w) > 0.1"
    by (simp add: w)
  have wr: "\<not> releasesNow ?w"
    by (simp add: releasesNow_def currentActionObject_def animationProgress_def w)
  have wo: "handOffsetOf ?w = Vec3 0 0.8 0.3"
    by (simp add: handOffsetOf_def currentActionObject_def animationProgress_def w Let_def)
  have "updateBasketballPhysics 0.02 ?p = ?p\<lparr>basketball := Some ?b1\<rparr>"
    using held_tick_is_kinematic[OF p(1,2,3,4) pv pr, of "0.02"]
    by (simp add: po vadd_def applyAxisAngleY_def)
  moreover have "updateBasketballPhysics 0.02 ?w = ?w\<lparr>basketball := Some ?b2\<rparr>"
    using held_tick_is_kinematic[OF w(1,2,3,4) wv wr, of "0.02"]
    by (simp add: wo vadd_def applyAxisAngleY_def)
  ultimately show ?thesis
    using p(3,4) pr w(3,5) wr by simp
qed

section \<open>Properties of the movement\<close>

lemma updateAction_fields [simp]:
  "avatar (updateAction k f s) = avatar s"
  "basketball (updateAction k f s) = basketball s"
  "basketballVelocity (updateAction k f s) = basketballVelocity s"
  "hasBall (updateAction k f s) = hasBall s"
  "isTransitioning (updateAction k f s) = isTransitioning s"
  "isThrowingBall (updateAction k f s) = isThrowingBall s"
  "ballWasThrown (updateAction k f s) = ballWasThrown s"
  "keys (updateAction k f s) = keys s"
  "mixerTime (updateAction k f s) = mixerTime s"
  "mixerActions (updateAction k f s) = mixerActions s"
  "listeners (updateAction k f s) = listeners s"
  "bindCount (updateAction k f s) = bindCount s"
  "currentAction (updateAction k f s) = currentAction s"
  "currentState (updateAction k f s) = currentState s"
  "actions (updateAction k f s) = (actions s)(k := map_option f (actions s k))"
  by (simp_all add: updateAction_def)

lemma updateCameraPosition_fields [simp]:
  "avatar (updateCameraPosition s) = avatar s"
  "actions (updateCameraPosition s) = actions s"
  "currentAction (updateCameraPosition s) = currentAction s"
  "mixerActions (updateCameraPosition s) = mixerActions s"
  "listeners (updateCameraPosition s) = listeners s"
  "bindCount (updateCameraPosition s) = bindCount s"
  "isTransitioning (updateCameraPosition s) = isTransitioning s"
  "isThrowingBall (updateCameraPosition s) = isThrowingBall s"
  "hasBall (updateCameraPosition s) = hasBall s"
  "currentState (updateCameraPosition s) = currentState s"
  by (simp_all add: updateCameraPosition_def Let_def)

lemma vlength_nonneg: "0 \<le> vlength v"
  by (simp add: vlength_def)

lemma vlength_zero_iff: "vlength v = 0 \<longleftrightarrow> v = Vec3 0 0 0"
proof -
  have "vx v * vx v + vy v * vy v + vz v * vz v = 0 \<longleftrightarrow> vx v = 0 \<and> vy v = 0 \<and> vz v = 0"
    by (metis add_nonneg_eq_0_iff add_nonneg_nonneg mult_eq_0_iff zero_le_square add.right_neutral)
  moreover have "0 \<le> vx v * vx v + vy v * vy v + vz v * vz v"
    by (intro add_nonneg_nonneg zero_le_square)
  ultimately show ?thesis
    by (cases v) (simp add: vlength_def)
qed

lemma handleMovement_position:
  assumes "avatar s = Some av" "\<not> isTransitioning s"
      and "vlength (moveDirOf s) > 0 \<longrightarrow>
             \<not> checkCollision (collisionBoxes s)
                 (vadd (position av)
                    (multiplyScalar (currentSpeedOf s * delta) (normalizeVec (moveDirOf s))))"
  shows "map_option position (avatar (handleMovement delta s)) =
           Some (vadd (position av)
                   (multiplyScalar (currentSpeedOf s * delta) (normalizeVec (moveDirOf s))))"
proof (cases "vlength (moveDirOf s) > 0")
  case True
  with assms show ?thesis
    by (simp add: handleMovement_def Let_def playAnimation_bodies)
next
  case False
  then have "vlength (moveDirOf s) = 0" using vlength_nonneg[of "moveDirOf s"] by simp
  then have z: "moveDirOf s = Vec3 0 0 0" by (simp add: vlength_zero_iff)
  have "vadd (position av) (multiplyScalar (currentSpeedOf s * delta) (normalizeVec (Vec3 0 0 0)))
          = position av"
    by (simp add: vadd_def multiplyScalar_def normalizeVec_def)
  with assms False z show ?thesis
    by (simp add: handleMovement_def Let_def playAnimation_bodies)
qed

lemma moveDirOf_components:
  "moveDirOf s =
     Vec3 ((if keys s ''z'' then - sin (cameraAngle s) else 0)
           - (if keys s ''s'' then - sin (cameraAngle s) else 0)
           - (if keys s ''q'' then cos (cameraAngle s) else 0)
           + (if keys s ''d'' then cos (cameraAngle s) else 0))
          0
          ((if keys s ''z'' then - cos (cameraAngle s) else 0)
           - (if keys s ''s'' then - cos (cameraAngle s) else 0)
           - (if keys s ''q'' then - sin (cameraAngle s) else 0)
           + (if keys s ''d'' then - sin (cameraAngle s) else 0))"
  by (simp add: moveDirOf_def cameraForward_def cameraRight_def vadd_def vsub_def Let_def)

text \<open>
  Claim C5. Take a tick of \<open>handleMovement\<close> with the avatar loaded and no transition
  under way. Let \<open>a\<close> be the camera angle. The key \<open>z\<close> contributes the camera's forward
  vector \<open>(- sin a, 0, - cos a)\<close>, the key \<open>s\<close> its opposite, the key \<open>d\<close> the camera's
  right vector \<open>(cos a, 0, - sin a)\<close> and the key \<open>q\<close> its opposite; \<open>(dx, 0, dz)\<close> is the
  sum over the held keys and \<open>len\<close> its Euclidean length. The speed is 4 with \<open>shift\<close>
  held and 2 otherwise. If \<open>len\<close> is positive and the collision query reports no hit at
  the candidate position, the new position is the old one plus \<open>(dx, 0, dz) / len\<close> times
  speed times delta; if \<open>len\<close> is zero the position is unchanged. In particular, with
  none of the four direction keys held the position is unchanged, whether or not
  \<open>shift\<close> is held.
\<close>

theorem movement_follows_held_directions:
  assumes "avatar s = Some av" and "\<not> isTransitioning s"
      and "dx = (if keys s ''z'' then - sin (cameraAngle s) else 0)
                - (if keys s ''s'' then - sin (cameraAngle s) else 0)
                - (if keys s ''q'' then cos (cameraAngle s) else 0)
                + (if keys s ''d'' then cos (cameraAngle s) else 0)"
      and "dz = (if keys s ''z'' then - cos (cameraAngle s) else 0)
                - (if keys s ''s'' then - cos (cameraAngle s) else 0)
                - (if keys s ''q'' then - sin (cameraAngle s) else 0)
                + (if keys s ''d'' then - sin (cameraAngle s) else 0)"
      and "len = sqrt (dx * dx + dz * dz)"
      and "speed = (if keys s ''shift'' then 4 else 2)"
      and "target = Vec3 (vx (position av) + dx / len * (speed * delta))
                         (vy (position av))
                         (vz (position av) + dz / len * (speed * delta))"
      and "len > 0 \<longrightarrow> \<not> checkCollision (collisionBoxes s) target"
  shows "map_option position (avatar (handleMovement delta s)) =
           Some (if len > 0 then target else position av) \<and>
         (\<not> keys s ''z'' \<and> \<not> keys s ''s'' \<and> \<not> keys s ''q'' \<and> \<not> keys s ''d'' \<longrightarrow>
            map_option position (avatar (handleMovement delta s)) = Some (position av))"
proof -
  have md: "moveDirOf s = Vec3 dx 0 dz"
    unfolding assms(3,4) by (rule moveDirOf_components)
  have vl': "vlength (Vec3 dx 0 dz) = len"
    by (simp add: vlength_def assms(5))
  have vl: "vlength (moveDirOf s) = len"
    by (simp add: md vl')
  have sp: "currentSpeedOf s = speed"
    by (simp add: currentSpeedOf_def assms(6) sprintSpeed_def moveSpeed_def)
  have tg: "len > 0 \<Longrightarrow>
              vadd (position av) (multiplyScalar (currentSpeedOf s * delta) (normalizeVec (moveDirOf s)))
                = target"
    by (simp add: normalizeVec_def vl' md sp vadd_def multiplyScalar_def assms(7))
  have nohit: "vlength (moveDirOf s) > 0 \<longrightarrow>
             \<not> checkCollision (collisionBoxes s)
                 (vadd (position av)
                    (multiplyScalar (currentSpeedOf s * delta) (normalizeVec (moveDirOf s))))"
    using assms(8) tg by (simp add: vl)
  have m: "map_option position (avatar (handleMovement delta s)) =
             Some (vadd (position av)
                     (multiplyScalar (currentSpeedOf s * delta) (normalizeVec (moveDirOf s))))"
    using assms(1,2) nohit by (rule handleMovement_position)
  have zero: "vadd (position av)
                (multiplyScalar (currentSpeedOf s * delta) (normalizeVec (moveDirOf s)))
              = position av" if "\<not> len > 0"
  proof -
    have "vlength (moveDirOf s) = 0"
      using that vlength_nonneg[of "moveDirOf s"] by (simp add: vl)
    then have "moveDirOf s = Vec3 0 0 0" by (simp add: vlength_zero_iff)
    then show ?thesis
      by (simp add: vadd_def multiplyScalar_def normalizeVec_def)
  qed
  have first: "map_option position (avatar (handleMovement delta s)) =
                 Some (if len > 0 then target else position av)"
    using m tg zero by (cases "len > 0") simp_all
  have "map_option position (avatar (handleMovement delta s)) = Some (position av)"
    if "\<not> keys s ''z'' \<and> \<not> keys s ''s'' \<and> \<not> keys s ''q'' \<and> \<not> keys s ''d''"
  proof -
    have "dx = 0" "dz = 0" using that by (simp_all add: assms(3,4))
    then have "\<not> len > 0" by (simp add: assms(5))
    with first show ?thesis by simp
  qed
  with first show ?thesis by simp
qed


theorem movement_follows_held_directions_witness:
  "map_option position
     (avatar (handleMovement 0.5
        (run [AvatarLoaded clips, CourtLoaded courtChildren,
              KeyDown ''z'', KeyDown ''d'', KeyDown ''shift''] initial))) =
     Some (Vec3 (sqrt 2) (- 1.5) (- sqrt 2)) \<and>
   map_option position
     (avatar (handleMovement 0.5
        (run [AvatarLoaded clips, MouseDown 0 0, MouseMove (- 100) 0,
              KeyDown ''s'', KeyDown ''q''] initial))) =
     Some (Vec3 ((sin 1 - cos 1) / sqrt 2) (- 1.5) ((cos 1 + sin 1) / sqrt 2)) \<and>
   map_option position
     (avatar (handleMovement 0.5 (run [AvatarLoaded clips, KeyDown ''shift''] initial))) =
     Some (Vec3 0 (- 1.5) 0)"
proof -
  let ?av = "\<lparr>position = Vec3 0 (- 1.5) 0, rotationY = 0, visible = True\<rparr>"
  let ?a = "run [AvatarLoaded clips, CourtLoaded courtChildren,
                 KeyDown ''z'', KeyDown ''d'', KeyDown ''shift''] initial"
  let ?b = "run [AvatarLoaded clips, MouseDown 0 0, MouseMove (- 100) 0,
                 KeyDown ''s'', KeyDown ''q''] initial"
  let ?c = "run [AvatarLoaded clips, KeyDown ''shift''] initial"
  let ?ta = "Vec3 (sqrt 2) (- 1.5) (- sqrt 2)"
  let ?tb = "Vec3 ((sin 1 - cos 1) / sqrt 2) (- 1.5) ((cos 1 + sin 1) / sqrt 2)"
  have a: "avatar ?a = Some ?av" "\<not> isTransitioning ?a" "cameraAngle ?a = 0"
    "keys ?a ''z''" "\<not> keys ?a ''s''" "\<not> keys ?a ''q''" "keys ?a ''d''" "keys ?a ''shift''"
    "collisionBoxes ?a = [Box3 (Vec3 2 (- 5.1) (- 3)) (Vec3 4 (- 1.36) 3)]"
    by (simp_all add: run_defs scenario_defs)
  have b: "avatar ?b = Some ?av" "\<not> isTransitioning ?b" "cameraAngle ?b = 1"
    "\<not> keys ?b ''z''" "keys ?b ''s''" "keys ?b ''q''" "\<not> keys ?b ''d''" "\<not> keys ?b ''shift''"
    "collisionBoxes ?b = []"
    by (simp_all add: run_defs scenario_defs)
  have c: "avatar ?c = Some ?av" "\<not> isTransitioning ?c"
    "\<not> keys ?c ''z''" "\<not> keys ?c ''s''" "\<not> keys ?c ''q''" "\<not> keys ?c ''d''" "keys ?c ''shift''"
    "collisionBoxes ?c = []"
    by (simp_all add: run_defs scenario_defs)
  have two: "(sin 1 - cos 1) * (sin 1 - cos 1) + (cos 1 + sin 1) * (cos 1 + sin 1) = (2::real)"
  proof -
    have unit: "cos (1::real) * cos 1 + sin 1 * sin 1 = 1"
      by (rule sin_cos_squared_add3)
    have "(sin 1 - cos 1) * (sin 1 - cos 1) + (cos 1 + sin 1) * (cos 1 + sin 1)
            = 2 * (cos (1::real) * cos 1 + sin 1 * sin 1)"
      by (simp only: left_diff_distrib right_diff_distrib distrib_left distrib_right
            mult.commute[of "cos 1" "sin 1"])
    then show ?thesis unfolding unit by simp
  qed
  have ra: "map_option position (avatar (handleMovement 0.5 ?a)) =
              Some (if sqrt 2 > 0 then ?ta else position ?av)"
    by (rule movement_follows_held_directions
               [where dx = 1 and dz = "- 1" and speed = 4, THEN conjunct1])
       (simp_all add: a real_div_sqrt box_defs const_defs)
  have rb: "map_option position (avatar (handleMovement 0.5 ?b)) =
              Some (if sqrt 2 > 0 then ?tb else position ?av)"
    by (rule movement_follows_held_directions
               [where dx = "sin 1 - cos 1" and dz = "cos 1 + sin 1" and speed = 2,
                THEN conjunct1])
       (simp_all add: b two checkCollision_def)
  have rc: "map_option position (avatar (handleMovement 0.5 ?c)) = Some (position ?av)"
    by (rule movement_follows_held_directions
               [where dx = 0 and dz = 0 and len = 0 and speed = 4
                  and target = "Vec3 0 (- 1.5) 0", THEN conjunct2, THEN mp])
       (simp_all add: c)
  from ra rb rc show ?thesis by simp
qed

section \<open>Properties of playAnimation\<close>

lemma playAnimation_restarts:
  assumes "actions s st = Some a"
  shows "actions (playAnimation st s) st =
           Some (a\<lparr>paused := False, enabled := True, time := 0,
                   fading := FadeIn (mixerTime s + 0.3)\<rparr>) \<and>
         currentAction (playAnimation st s) = Some st"
  using assms
  by (auto simp: playAnimation_def Let_def fadeOut_def fadeIn_def reset_def play_def bind_def
        addEventListener_def split: option.split)

text \<open>
  Claim C7, as amended. \<open>playAnimation\<close> has no test for the state that is already
  playing: whenever the action of the requested state exists it resets the clip to
  time 0, unpauses and enables it and schedules a fade-in of 0.3 seconds, and makes it
  the current action. The no-op is made by the caller: a tick of \<open>handleMovement\<close>
  whose selected state equals \<open>currentState\<close> does not call \<open>playAnimation\<close> and leaves
  the actions, the current action, the active actions, the listeners and the flags
  \<open>isTransitioning\<close> and \<open>isThrowingBall\<close> as they were.
\<close>

theorem play_is_guarded_by_the_caller:
  assumes "avatar s = Some av" and "\<not> isTransitioning s" and "selectedState s = currentState s"
  shows "(actions (handleMovement delta s) = actions s \<and>
          currentAction (handleMovement delta s) = currentAction s \<and>
          mixerActions (handleMovement delta s) = mixerActions s \<and>
          listeners (handleMovement delta s) = listeners s \<and>
          isTransitioning (handleMovement delta s) = isTransitioning s \<and>
          isThrowingBall (handleMovement delta s) = isThrowingBall s \<and>
          currentState (handleMovement delta s) = currentState s) \<and>
         (\<forall>st a. actions s st = Some a \<longrightarrow>
            actions (playAnimation st s) st =
              Some (a\<lparr>paused := False, enabled := True, time := 0,
                      fading := FadeIn (mixerTime s + 0.3)\<rparr>) \<and>
            currentAction (playAnimation st s) = Some st)"
proof -
  have "actions (handleMovement delta s) = actions s \<and>
          currentAction (handleMovement delta s) = currentAction s \<and>
          mixerActions (handleMovement delta s) = mixerActions s \<and>
          listeners (handleMovement delta s) = listeners s \<and>
          isTransitioning (handleMovement delta s) = isTransitioning s \<and>
          isThrowingBall (handleMovement delta s) = isThrowingBall s \<and>
          currentState (handleMovement delta s) = currentState s"
  proof (cases "vlength (moveDirOf s) > 0")
    case True
    with assms show ?thesis
      by (simp add: handleMovement_def selectedState_def Let_def)
  next
    case False
    with assms show ?thesis
      by (auto simp: handleMovement_def selectedState_def Let_def)
  qed
  with playAnimation_restarts show ?thesis by blast
qed

theorem play_is_guarded_by_the_caller_witness:
  "selectedState (run pickup initial) = currentState (run pickup initial) \<and>
   currentAction (handleMovement 0.02 (run pickup initial)) = Some HoldingBall \<and>
   listeners (handleMovement 0.02 (run pickup initial)) = [(0, OnCrouchFinished)] \<and>
   actions (handleMovement 0.02 (run pickup initial)) ThrowBall =
     Some \<lparr>clipDuration = 1, loopOnce = True, time = 0, paused = False, enabled = True,
            fading = NoFade\<rparr> \<and>
   actions (playAnimation ThrowBall (run windUp initial)) ThrowBall =
     Some \<lparr>clipDuration = 1, loopOnce = True, time = 0, paused = False, enabled = True,
            fading = FadeIn (mixerTime (run windUp initial) + 0.3)\<rparr>"
proof -
  let ?av = "\<lparr>position = Vec3 2 (- 1.5) 0, rotationY = pi / 2, visible = True\<rparr>"
  let ?p = "run pickup initial"
  let ?w = "run windUp initial"
  let ?a = "\<lparr>clipDuration = 1, loopOnce = True, time = 0.3, paused = False, enabled = True,
             fading = FadeIn 2.3\<rparr>"
  have p: "avatar ?p = Some ?av" "\<not> isTransitioning ?p" "currentAction ?p = Some HoldingBall"
    "listeners ?p = [(0, OnCrouchFinished)]"
    "actions ?p ThrowBall =
       Some \<lparr>clipDuration = 1, loopOnce = True, time = 0, paused = False, enabled = True,
              fading = NoFade\<rparr>"
    using snapshot_pickup by (simp_all add: snapshot_def)
  have sel: "selectedState ?p = currentState ?p"
    by (simp add: selectedState_def run_defs scenario_defs)
  have w: "avatar ?w = Some ?av" "actions ?w ThrowBall = Some ?a"
    using snapshot_windUp by (simp_all add: snapshot_def)
  from play_is_guarded_by_the_caller[OF p(1,2) sel, of "0.02"]
  have "actions (handleMovement 0.02 ?p) = actions ?p"
       "currentAction (handleMovement 0.02 ?p) = currentAction ?p"
       "listeners (handleMovement 0.02 ?p) = listeners ?p"
    by simp_all
  moreover have "actions (playAnimation ThrowBall ?w) ThrowBall =
          Some (?a\<lparr>paused := False, enabled := True, time := 0,
                  fading := FadeIn (mixerTime ?w + 0.3)\<rparr>)"
    using playAnimation_restarts[OF w(2)] by simp
  ultimately show ?thesis
    using sel p(3,4,5) by simp
qed

text \<open>
  The claim as the specification states it fails. After the first frame of a throw the
  current action is the throw clip, 0.3 seconds in, and two listeners are registered;
  \<open>playAnimation\<close> for the same state puts the clip back to time 0, schedules a new
  fade-in and registers a third listener.
\<close>

theorem play_restarts_the_current_clip:
  "currentAction (run windUp initial) = Some ThrowBall \<and>
   currentState (run windUp initial) = ThrowBall \<and>
   actions (run windUp initial) ThrowBall =
     Some \<lparr>clipDuration = 1, loopOnce = True, time = 0.3, paused = False, enabled = True,
            fading = FadeIn 2.3\<rparr> \<and>
   actions (playAnimation ThrowBall (run windUp initial)) ThrowBall =
     Some \<lparr>clipDuration = 1, loopOnce = True, time = 0, paused = False, enabled = True,
            fading = FadeIn 2.6\<rparr> \<and>
   listeners (run windUp initial) = [(0, OnCrouchFinished), (2, OnThrowFinished)] \<and>
   listeners (playAnimation ThrowBall (run windUp initial)) =
     [(0, OnCrouchFinished), (2, OnThrowFinished), (3, OnThrowFinished)] \<and>
   playAnimation ThrowBall (run windUp initial) \<noteq> run windUp initial"
proof -
  have st: "currentState (run windUp initial) = ThrowBall"
    by (simp add: run_defs scenario_defs)
  have w: "currentAction (run windUp initial) = Some ThrowBall"
    "actions (run windUp initial) ThrowBall =
       Some \<lparr>clipDuration = 1, loopOnce = True, time = 0.3, paused = False, enabled = True,
              fading = FadeIn 2.3\<rparr>"
    "listeners (run windUp initial) = [(0, OnCrouchFinished), (2, OnThrowFinished)]"
    using snapshot_windUp by (simp_all add: snapshot_def)
  have r: "actions (playAnimation ThrowBall (run windUp initial)) ThrowBall =
       Some \<lparr>clipDuration = 1, loopOnce = True, time = 0, paused = False, enabled = True,
              fading = FadeIn 2.6\<rparr>"
    "listeners (playAnimation ThrowBall (run windUp initial)) =
       [(0, OnCrouchFinished), (2, OnThrowFinished), (3, OnThrowFinished)]"
    using snapshot_replay by (simp_all add: snapshot_def)
  have "playAnimation ThrowBall (run windUp initial) \<noteq> run windUp initial"
  proof
    assume "playAnimation ThrowBall (run windUp initial) = run windUp initial"
    then have "listeners (playAnimation ThrowBall (run windUp initial)) =
                 listeners (run windUp initial)" by simp
    then show False unfolding r(2) w(3) by simp
  qed
  with st w r show ?thesis by simp
qed

section \<open>Properties of the throw\<close>

lemma throwBasketball_flags [simp]:
  "hasBall (throwBasketball s) = hasBall s"
  "isThrowingBall (throwBasketball s) = isThrowingBall s"
  by (simp_all add: throwBasketball_def consoleLog_def Let_def split: option.split)

lemma setBallInHand_flags [simp]:
  "hasBall (setBallInHand h s) = hasBall s"
  "isThrowingBall (setBallInHand h s) = isThrowingBall s"
  by (simp_all add: setBallInHand_def split: option.split)





section \<open>Properties of the completion callbacks\<close>

text \<open>
  Both callbacks ask the mixer to remove a function that \<open>bind\<close> has just made. No
  listener in the array is that function, so the array stays as it is.
\<close>

lemma newly_bound_listener_is_not_removed:
  assumes "\<forall>l \<in> set (listeners s). fst l < bindCount s"
  shows "listeners (removeEventListener (fst (bind h s)) (snd (bind h s))) = listeners s"
proof -
  have "(bindCount s, h) \<notin> set (listeners s)"
    using assms by fastforce
  then show ?thesis
    by (simp add: bind_def removeEventListener_def remove1_idem)
qed

text \<open>
  Claim C1, on a pickup followed by a throw. The listener of the crouch is still
  registered after it has fired: \<open>onCrouchFinished\<close> passes a newly bound function to
  \<open>removeEventListener\<close>, which is not the one that was added. When the throw clip
  ends, the mixer therefore calls \<open>onCrouchFinished\<close> again, before \<open>onThrowFinished\<close>:
  the console shows the completion of a pickup a second time, and both listeners
  remain registered afterwards.
\<close>

theorem stale_crouch_listener_fires_at_throw_end:
  "listeners (run pickup initial) = [(0, OnCrouchFinished)] \<and>
   console (run pickup initial) = [PickingUpBall, BallPickupCompleted] \<and>
   listeners (run flight initial) = [(0, OnCrouchFinished), (2, OnThrowFinished)] \<and>
   console (run flight initial) =
     [PickingUpBall, BallPickupCompleted, StartingThrowAnimation, ReleasingBall,
      BasketballThrown] \<and>
   listeners (run completion initial) = [(0, OnCrouchFinished), (2, OnThrowFinished)] \<and>
   console (run completion initial) =
     [PickingUpBall, BallPickupCompleted, StartingThrowAnimation, ReleasingBall,
      BasketballThrown, ReleasingBall, BasketballThrown, BallPickupCompleted,
      ThrowAnimationFinished]"
  using snapshot_pickup snapshot_flight snapshot_completion by (simp add: snapshot_def)

text \<open>
  Claim C2, on the same run. The physics tick of the first frame of the throw finds
  the progress at 0.7 and releases the ball with the velocity \<open>(8, 6, 0)\<close>; a frame of
  free flight lowers the vertical velocity to 5.019. In the frame in which the throw
  clip ends, the stale crouch callback marks the ball as held again and attaches it to
  the hand, which releases it a second time: the velocity is set to \<open>(8, 6, 0)\<close> anew,
  so that the frame ends with the vertical velocity 4.038 and not 3.057, and the
  console shows two throws.
\<close>

theorem ball_released_twice_in_one_throw:
  "basketballVelocity (run release initial) = Vec3 8 6 0 \<and>
   hasBall (run release initial) = False \<and>
   ballWasThrown (run release initial) = True \<and>
   basketballVelocity (run flight initial) = Vec3 8 5.019 0 \<and>
   basketballVelocity (run completion initial) = Vec3 8 4.038 0 \<and>
   count_list (console (run release initial)) BasketballThrown = 1 \<and>
   count_list (console (run completion initial)) BasketballThrown = 2"
  using snapshot_release snapshot_flight snapshot_completion by (simp add: snapshot_def)

end
